theory Spec2Isabelle
  imports Complex_Main "HOL-Library.AList"
begin

section \<open>Strings and the standard-library functions the progress parser calls\<close>

text \<open>
  A Go \<^verbatim>\<open>string\<close> is a sequence of bytes; it is modelled as a \<^typ>\<open>string\<close>
  (a list of 8-bit characters). The functions of this section are the parts of the Go
  standard library that \<^verbatim>\<open>Prediction.Progress\<close> calls: \<^verbatim>\<open>strings.Split\<close>,
  \<^verbatim>\<open>strings.TrimSpace\<close>, \<^verbatim>\<open>regexp.MatchString\<close>, \<^verbatim>\<open>regexp.FindStringSubmatch\<close>
  (for the one pattern the program compiles) and \<^verbatim>\<open>fmt.Sscanf\<close> with the verb
  \<^verbatim>\<open>%d\<close>.
\<close>

definition newline :: char where
  "newline = CHR 0x0A"

text \<open>
  \<^verbatim>\<open>strings.Split\<close> with a separator of one character: the pieces of the string
  between the separators. A string without a separator, the empty string too, gives one
  piece. \<open>Split\<close> is \<^verbatim>\<open>strings.Split(s, "\n")\<close>.
\<close>

fun splitOn :: "char \<Rightarrow> string \<Rightarrow> string list" where
  "splitOn sep [] = [[]]"
| "splitOn sep (c # cs) =
     (if c = sep then [] # splitOn sep cs
      else (case splitOn sep cs of [] \<Rightarrow> [[c]] | l # ls \<Rightarrow> (c # l) # ls))"

definition Split :: "string \<Rightarrow> string list" where
  "Split s = splitOn newline s"

text \<open>
  White space as \<^verbatim>\<open>strings.TrimSpace\<close> sees it (\<^verbatim>\<open>unicode.IsSpace\<close>), given by the UTF-8
  encodings of the white-space code points: the six ASCII ones (tab, line feed, vertical
  tab, form feed, carriage return, space), U+0085, U+00A0, U+1680, U+2000 to U+200A,
  U+2028, U+2029, U+202F, U+205F and U+3000.
\<close>

definition asciiSpace :: "char list" where
  "asciiSpace = [CHR 0x09, CHR 0x0A, CHR 0x0B, CHR 0x0C, CHR 0x0D, CHR 0x20]"

definition spaceRunes2 :: "string list" where
  "spaceRunes2 = [[CHR 0xC2, CHR 0x85], [CHR 0xC2, CHR 0xA0]]"

definition spaceRunes3 :: "string list" where
  "spaceRunes3 =
     [[CHR 0xE1, CHR 0x9A, CHR 0x80],
      [CHR 0xE2, CHR 0x80, CHR 0x80], [CHR 0xE2, CHR 0x80, CHR 0x81],
      [CHR 0xE2, CHR 0x80, CHR 0x82], [CHR 0xE2, CHR 0x80, CHR 0x83],
      [CHR 0xE2, CHR 0x80, CHR 0x84], [CHR 0xE2, CHR 0x80, CHR 0x85],
      [CHR 0xE2, CHR 0x80, CHR 0x86], [CHR 0xE2, CHR 0x80, CHR 0x87],
      [CHR 0xE2, CHR 0x80, CHR 0x88], [CHR 0xE2, CHR 0x80, CHR 0x89],
      [CHR 0xE2, CHR 0x80, CHR 0x8A],
      [CHR 0xE2, CHR 0x80, CHR 0xA8], [CHR 0xE2, CHR 0x80, CHR 0xA9],
      [CHR 0xE2, CHR 0x80, CHR 0xAF], [CHR 0xE2, CHR 0x81, CHR 0x9F],
      [CHR 0xE3, CHR 0x80, CHR 0x80]]"

text \<open>
  The width in bytes of the white-space rune a string starts with, and of the one it ends
  with; 0 when there is none.
\<close>

definition spaceWidth :: "string \<Rightarrow> nat" where
  "spaceWidth s =
     (if s \<noteq> [] \<and> hd s \<in> set asciiSpace then 1
      else if take 2 s \<in> set spaceRunes2 then 2
      else if take 3 s \<in> set spaceRunes3 then 3
      else 0)"

definition spaceWidthEnd :: "string \<Rightarrow> nat" where
  "spaceWidthEnd s =
     (if s \<noteq> [] \<and> last s \<in> set asciiSpace then 1
      else if drop (length s - 2) s \<in> set spaceRunes2 then 2
      else if drop (length s - 3) s \<in> set spaceRunes3 then 3
      else 0)"

function TrimLeft :: "string \<Rightarrow> string" where
  "TrimLeft s = (if spaceWidth s = 0 then s else TrimLeft (drop (spaceWidth s) s))"
  by pat_completeness auto
termination
proof (relation "measure length")
  show "wf (measure length)"
    by simp
next
  fix s :: string
  assume w: "spaceWidth s \<noteq> 0"
  have "spaceWidth [] = 0"
    by (simp add: spaceWidth_def spaceRunes2_def spaceRunes3_def)
  with w have "s \<noteq> []"
    by auto
  with w show "(drop (spaceWidth s) s, s) \<in> measure length"
    by simp
qed

function TrimRight :: "string \<Rightarrow> string" where
  "TrimRight s =
     (if spaceWidthEnd s = 0 then s else TrimRight (take (length s - spaceWidthEnd s) s))"
  by pat_completeness auto
termination
proof (relation "measure length")
  show "wf (measure length)"
    by simp
next
  fix s :: string
  assume w: "spaceWidthEnd s \<noteq> 0"
  have "spaceWidthEnd [] = 0"
    by (simp add: spaceWidthEnd_def spaceRunes2_def spaceRunes3_def)
  with w have "s \<noteq> []"
    by auto
  with w show "(take (length s - spaceWidthEnd s) s, s) \<in> measure length"
    by simp
qed

declare TrimLeft.simps [simp del]
declare TrimRight.simps [simp del]

definition TrimSpace :: "string \<Rightarrow> string" where
  "TrimSpace s = TrimRight (TrimLeft s)"

subsection \<open>The progress pattern\<close>

text \<open>
  The pattern is
  \<^verbatim>\<open>^\s*(?P<percentage>\d+)%\s*\|.+?\|\s*(?P<current>\d+)\/(?P<total>\d+)\<close>.
  In Go's syntax \<^verbatim>\<open>\s\<close> is the class of tab, line feed, form feed, carriage return
  and space (the vertical tab is not in it), \<^verbatim>\<open>\d\<close> is an ASCII digit, and
  \<^verbatim>\<open>.\<close> is any character but the line feed. The pattern is anchored at the start of
  the text, \<^verbatim>\<open>*\<close> and \<^verbatim>\<open>+\<close> prefer the longest repetition and
  \<^verbatim>\<open>+?\<close> the shortest, and the match reported is the first one in that order of
  preference. Every literal and class that follows a repetition here is ASCII, so
  matching bytes and matching runes agree.
\<close>

definition reSpace :: "char \<Rightarrow> bool" where
  "reSpace c = (c \<in> set [CHR 0x09, CHR 0x0A, CHR 0x0C, CHR 0x0D, CHR 0x20])"

definition reDigit :: "char \<Rightarrow> bool" where
  "reDigit c = (c \<in> set ''0123456789'')"

definition reAny :: "char \<Rightarrow> bool" where
  "reAny c = (c \<noteq> newline)"

text \<open>\<^verbatim>\<open>(\d+)\<close>: the longest run of digits, at least one; the run and what follows it.\<close>

definition reDigits :: "string \<Rightarrow> (string \<times> string) option" where
  "reDigits s =
     (if takeWhile reDigit s = [] then None
      else Some (takeWhile reDigit s, dropWhile reDigit s))"

text \<open>A literal character; what follows it.\<close>

definition reLit :: "char \<Rightarrow> string \<Rightarrow> string option" where
  "reLit c s = (case s of [] \<Rightarrow> None | x # xs \<Rightarrow> if x = c then Some xs else None)"

text \<open>
  \<^verbatim>\<open>\|\s*(\d+)\/(\d+)\<close>, the part of the pattern after the lazy repetition: the two
  captures and the rest of the text.
\<close>

definition reTail :: "string \<Rightarrow> (string \<times> string \<times> string) option" where
  "reTail s =
     (case reLit (CHR ''|'') s of
        None \<Rightarrow> None
      | Some s1 \<Rightarrow>
          (case reDigits (dropWhile reSpace s1) of
             None \<Rightarrow> None
           | Some (cur, s2) \<Rightarrow>
               (case reLit (CHR ''/'') s2 of
                  None \<Rightarrow> None
                | Some s3 \<Rightarrow>
                    (case reDigits s3 of
                       None \<Rightarrow> None
                     | Some (tot, rest) \<Rightarrow> Some (cur, tot, rest)))))"

text \<open>
  \<^verbatim>\<open>.+?\<close> followed by the tail: one character is consumed, then the tail is tried
  before any further character is consumed.
\<close>

fun reLazy :: "string \<Rightarrow> (string \<times> string \<times> string) option" where
  "reLazy [] = None"
| "reLazy (c # cs) =
     (if \<not> reAny c then None
      else (case reTail cs of
              Some r \<Rightarrow> Some r
            | None \<Rightarrow> reLazy cs))"

text \<open>
  The whole pattern on a text: the four strings of a match (the text matched and the three
  captures), if there is one.
\<close>

definition reFind :: "string \<Rightarrow> string list option" where
  "reFind s =
     (case reDigits (dropWhile reSpace s) of
        None \<Rightarrow> None
      | Some (pct, s1) \<Rightarrow>
          (case reLit (CHR ''%'') s1 of
             None \<Rightarrow> None
           | Some s2 \<Rightarrow>
               (case reLit (CHR ''|'') (dropWhile reSpace s2) of
                  None \<Rightarrow> None
                | Some s3 \<Rightarrow>
                    (case reLazy s3 of
                       None \<Rightarrow> None
                     | Some (cur, tot, rest) \<Rightarrow>
                         Some [take (length s - length rest) s, pct, cur, tot]))))"

definition MatchString :: "string \<Rightarrow> bool" where
  "MatchString s = (reFind s \<noteq> None)"

text \<open>\<^verbatim>\<open>FindStringSubmatch\<close> returns \<^verbatim>\<open>nil\<close>, a slice of length 0, when nothing matches.\<close>

definition FindStringSubmatch :: "string \<Rightarrow> string list" where
  "FindStringSubmatch s = (case reFind s of None \<Rightarrow> [] | Some ms \<Rightarrow> ms)"

subsection \<open>Reading an integer\<close>

text \<open>
  \<^verbatim>\<open>fmt.Sscanf(s, "%d", &x)\<close> on a capture of \<^verbatim>\<open>\d+\<close>: the digits are read
  as a decimal number; when the number does not fit Go's 64-bit \<^verbatim>\<open>int\<close> the scan
  fails and \<open>x\<close> keeps the value it had. \<^verbatim>\<open>Progress\<close> ignores the error. The second
  argument is the value of \<open>x\<close> before the call.
\<close>

definition digitVal :: "char \<Rightarrow> int" where
  "digitVal c = int (of_char c) - 48"

definition decimal :: "string \<Rightarrow> int" where
  "decimal ds = foldl (\<lambda>n c. 10 * n + digitVal c) 0 ds"

definition maxInt64 :: int where
  "maxInt64 = 2 ^ 63 - 1"

definition Sscanf_d :: "string \<Rightarrow> int \<Rightarrow> int" where
  "Sscanf_d s x =
     (let tok = takeWhile reDigit s
      in if tok = [] then x
         else if decimal tok \<le> maxInt64 then decimal tok
         else x)"

section \<open>The prediction entity\<close>

text \<open>
  \<^verbatim>\<open>interface{}\<close> values, as far as the program tells them apart: a pointer to a
  \<^verbatim>\<open>File\<close> (which may be \<^verbatim>\<open>nil\<close>), a string, a list of webhook event types, a
  map (which may be \<^verbatim>\<open>nil\<close>), and the other JSON-compatible values.
\<close>

text \<open>
  Modelled from the spec: the type \<^verbatim>\<open>File\<close> is declared outside
  \<^verbatim>\<open>prediction.go\<close>; the spec describes it as a value exposing a "get" retrieval URL,
  and the code reads its field \<^verbatim>\<open>URLs\<close>, a map from relation names to URLs.
\<close>

record File =
  URLs :: "(string \<times> string) list"

datatype goval =
    VNil
  | VBool bool
  | VNumber real
  | VString string
  | VStrings "string list"
  | VArray "goval list"
  | VFile "File option"
  | VMap "(string \<times> goval) list option"

type_synonym gomap = "(string \<times> goval) list"

record PredictionMetrics =
  PredictTime :: "real option"
  TotalTime :: "real option"
  InputTokenCount :: "int option"
  OutputTokenCount :: "int option"
  TimeToFirstToken :: "real option"
  TokensPerSecond :: "real option"

text \<open>
  The fields of \<^verbatim>\<open>Prediction\<close> that \<^verbatim>\<open>encoding/json\<close> reads and writes, and the
  entity itself, which adds the unexported field \<^verbatim>\<open>rawJSON\<close> (tagged
  \<^verbatim>\<open>json:"-"\<close>).
\<close>

record PredictionFields =
  ID :: string
  Status :: string
  Model :: string
  Version :: string
  Input :: "gomap option"
  Output :: goval
  Source :: string
  Error :: goval
  Logs :: "string option"
  Metrics :: "PredictionMetrics option"
  Webhook :: "string option"
  WebhookEventsFilter :: "string list"
  PredictionURLs :: "(string \<times> string) list"
  CreatedAt :: string
  StartedAt :: "string option"
  CompletedAt :: "string option"

record Prediction = PredictionFields +
  rawJSON :: string

record PredictionProgress =
  Percentage :: real
  Current :: int
  Total :: int

text \<open>
  \<^verbatim>\<open>Progress\<close>. The loop \<^verbatim>\<open>for i := len(lines) - 1; i >= 0; i--\<close> is
  \<open>scanLines lines n\<close> with \<open>n = i + 1\<close>. \<^verbatim>\<open>float64(percentage) / float64(100)\<close> is
  modelled by the exact quotient; the rounding of the 64-bit floating-point division is
  not modelled.
\<close>

definition snapshot :: "string list \<Rightarrow> PredictionProgress" where
  "snapshot matches =
     (let percentage = Sscanf_d (matches ! 1) 0;
          current = Sscanf_d (matches ! 2) 0;
          total = Sscanf_d (matches ! 3) 0
      in \<lparr>Percentage = real_of_int percentage / real_of_int 100,
          Current = current, Total = total\<rparr>)"

fun scanLines :: "string list \<Rightarrow> nat \<Rightarrow> PredictionProgress option" where
  "scanLines lines 0 = None"
| "scanLines lines (Suc i) =
     (let line = TrimSpace (lines ! i)
      in if MatchString line then
           (let matches = FindStringSubmatch (lines ! i)
            in if length matches = 4 then Some (snapshot matches)
               else scanLines lines i)
         else scanLines lines i)"

definition Progress :: "'a Prediction_scheme \<Rightarrow> PredictionProgress option" where
  "Progress p =
     (case Logs p of
        None \<Rightarrow> None
      | Some logs \<Rightarrow>
          if logs = [] then None
          else (let lines = Split logs
                in if length lines = 0 then None
                   else scanLines lines (length lines)))"

text \<open>The zero value \<^verbatim>\<open>Prediction{}\<close>.\<close>

definition emptyPrediction :: Prediction where
  "emptyPrediction =
     \<lparr>ID = [], Status = [], Model = [], Version = [], Input = None, Output = VNil,
      Source = [], Error = VNil, Logs = None, Metrics = None, Webhook = None,
      WebhookEventsFilter = [], PredictionURLs = [], CreatedAt = [], StartedAt = None,
      CompletedAt = None, rawJSON = []\<rparr>"

text \<open>
  Go errors. \<^verbatim>\<open>fmt.Errorf("msg: %w", err)\<close> is \<open>Wrapped ''msg'' err\<close>: its text is the
  message, a colon and the text of \<open>err\<close>, and \<^verbatim>\<open>errors.Unwrap\<close> gives \<open>err\<close> back.
  \<open>NilPointerDereference\<close> is the run-time panic of reading a field through a
  \<^verbatim>\<open>nil\<close> pointer.
\<close>

datatype error =
    Err string
  | Wrapped string error
  | NilPointerDereference

fun errorText :: "error \<Rightarrow> string" where
  "errorText (Err msg) = msg"
| "errorText (Wrapped msg err) = msg @ '': '' @ errorText err"
| "errorText NilPointerDereference =
     ''runtime error: invalid memory address or nil pointer dereference''"

fun Unwrap :: "error \<Rightarrow> error option" where
  "Unwrap (Wrapped msg err) = Some err"
| "Unwrap _ = None"

definition RawJSON :: "Prediction \<Rightarrow> string" where
  "RawJSON p = rawJSON p"

text \<open>
  \<^verbatim>\<open>UnmarshalJSON\<close>. \<^verbatim>\<open>json.Unmarshal\<close> belongs to the standard library and is a
  parameter: from the payload and the fields before the call it gives the fields after the
  call and the error, if any. It is called on the alias type, whose fields are those of
  \<^verbatim>\<open>Prediction\<close> in the same memory; \<^verbatim>\<open>encoding/json\<close> does not write the unexported
  field \<^verbatim>\<open>rawJSON\<close>, so the decoder works on \<^typ>\<open>PredictionFields\<close>. The result is
  the value of \<open>p\<close> after the call, and the error.
\<close>

type_synonym unmarshaler = "string \<Rightarrow> PredictionFields \<Rightarrow> PredictionFields \<times> error option"

definition UnmarshalJSON :: "unmarshaler \<Rightarrow> Prediction \<Rightarrow> string \<Rightarrow> Prediction \<times> error option" where
  "UnmarshalJSON unmarshal p data =
     (let p1 = p\<lparr>rawJSON := data\<rparr>;
          (alias, err) = unmarshal data (PredictionFields.truncate p1)
      in (PredictionFields.extend alias (PredictionFields.more p1), err))"

text \<open>
  A history of decodes into one value: the payloads are decoded one after the other, each
  over the result of the one before, whether or not the one before failed.
\<close>

fun decodeAll :: "unmarshaler \<Rightarrow> Prediction \<Rightarrow> string list \<Rightarrow> Prediction" where
  "decodeAll unmarshal p [] = p"
| "decodeAll unmarshal p (data # rest) = decodeAll unmarshal (fst (UnmarshalJSON unmarshal p data)) rest"

text \<open>
  \<^verbatim>\<open>json.Unmarshal(payload, &p)\<close> for a prediction \<open>p\<close>, which is how a payload is
  decoded into a prediction. The standard library first checks the syntax of the whole
  payload and, on an error, returns it without calling the hook; the check is the
  parameter \<open>valid\<close>. On a valid payload it skips the white space before the value and
  calls \<^verbatim>\<open>UnmarshalJSON\<close> with the bytes of the value alone
  (\<^verbatim>\<open>d.data[start:d.off]\<close>). A valid payload is one value with white space around it,
  so the bytes of the value are the payload without its leading and trailing JSON white
  space: space, tab, carriage return and line feed.
\<close>

definition jsonSpace :: "char \<Rightarrow> bool" where
  "jsonSpace c = (c \<in> set [CHR 0x20, CHR 0x09, CHR 0x0D, CHR 0x0A])"

definition valueBytes :: "string \<Rightarrow> string" where
  "valueBytes payload = rev (dropWhile jsonSpace (rev (dropWhile jsonSpace payload)))"

definition Unmarshal ::
  "(string \<Rightarrow> bool) \<Rightarrow> unmarshaler \<Rightarrow> Prediction \<Rightarrow> string \<Rightarrow> Prediction \<times> error option" where
  "Unmarshal valid unmarshal p payload =
     (if \<not> valid payload then (p, Some (Err ''json: syntax error''))
      else UnmarshalJSON unmarshal p (valueBytes payload))"

section \<open>The request builder\<close>

text \<open>
  Modelled from the spec: the type \<^verbatim>\<open>Webhook\<close> is declared outside
  \<^verbatim>\<open>prediction.go\<close>; the spec describes it as a callback URL plus a filter of event
  types, and the code reads its fields \<^verbatim>\<open>URL\<close> and \<^verbatim>\<open>Events\<close>. An event type is a
  string.
\<close>

record Webhook =
  URL :: string
  Events :: "string list"

text \<open>Reading a Go map of strings at a key: the empty string when the key is absent.\<close>

definition index :: "(string \<times> string) list \<Rightarrow> string \<Rightarrow> string" where
  "index m k = (case map_of m k of None \<Rightarrow> [] | Some v \<Rightarrow> v)"

text \<open>
  A Go map is an association list read with \<^const>\<open>map_of\<close> and written with
  \<^const>\<open>AList.update\<close>; a map variable is an option, \<open>None\<close> for \<^verbatim>\<open>nil\<close>. Maps are
  passed by reference: a function that writes to a map of its caller returns the map as
  it is after the call. The base payload and the input are taken to be different map
  objects.

  The loop \<^verbatim>\<open>for key, value := range input\<close> visits the keys of the map in an order
  Go does not specify; here it is the order of the association list. An entry that holds
  a \<^verbatim>\<open>nil\<close> pointer to a \<^verbatim>\<open>File\<close> passes the type assertion, and reading its
  \<^verbatim>\<open>URLs\<close> panics; the map is then left as the entries visited so far have made it.
\<close>

fun convertFiles :: "string list \<Rightarrow> gomap \<Rightarrow> gomap \<times> error option" where
  "convertFiles [] input = (input, None)"
| "convertFiles (key # keys) input =
     (case map_of input key of
        Some (VFile file) \<Rightarrow>
          (case file of
             None \<Rightarrow> (input, Some NilPointerDereference)
           | Some f \<Rightarrow>
               convertFiles keys (AList.update key (VString (index (URLs f) ''get'')) input))
      | _ \<Rightarrow> convertFiles keys input)"

text \<open>
  Lines 109 to 130 of \<^verbatim>\<open>createPredictionRequest\<close>: the input after the conversion of
  its files, and the map that is serialized. After \<^verbatim>\<open>data = make(...)\<close> the variable
  \<^verbatim>\<open>data\<close> is never \<^verbatim>\<open>nil\<close>, so the test of line 133 always holds.
\<close>

definition requestPayload ::
  "gomap option \<Rightarrow> gomap option \<Rightarrow> Webhook option \<Rightarrow> bool \<Rightarrow> (gomap option \<times> gomap) \<times> error option" where
  "requestPayload data input webhook stream =
     (let (input1, panic) =
            (case input of
               None \<Rightarrow> (None, None)
             | Some m \<Rightarrow> (case convertFiles (map fst m) m of (m1, e) \<Rightarrow> (Some m1, e)));
          data1 = (case data of None \<Rightarrow> [] | Some d \<Rightarrow> d);
          data2 = AList.update ''input'' (VMap input1) data1;
          data3 =
            (case webhook of
               None \<Rightarrow> data2
             | Some w \<Rightarrow>
                 (let d = AList.update ''webhook'' (VString (URL w)) data2
                  in if length (Events w) > 0
                     then AList.update ''webhook_events_filter'' (VStrings (Events w)) d
                     else d));
          data4 = (if stream then AList.update ''stream'' (VBool True) data3 else data3)
      in case panic of
           Some e \<Rightarrow> ((input1, data1), Some e)
         | None \<Rightarrow> ((input1, data4), None))"

text \<open>
  Lines 132 to 146 of \<^verbatim>\<open>createPredictionRequest\<close>: the payload is serialized and the
  request is made. \<^verbatim>\<open>json.Marshal\<close> and the client's \<^verbatim>\<open>newRequest\<close> (method, path,
  body) are parameters.
\<close>

definition serializeRequest ::
  "(gomap \<Rightarrow> error + string) \<Rightarrow> (string \<Rightarrow> string \<Rightarrow> string \<Rightarrow> error + 'req) \<Rightarrow>
   string \<Rightarrow> gomap \<Rightarrow> error + 'req" where
  "serializeRequest marshal newRequest path payload =
     (case marshal payload of
        Inl err \<Rightarrow> Inl (Wrapped ''failed to marshal request body'' err)
      | Inr bodyBytes \<Rightarrow>
          (case newRequest ''POST'' path bodyBytes of
             Inl err \<Rightarrow> Inl (Wrapped ''failed to create prediction request'' err)
           | Inr req \<Rightarrow> Inr req))"

text \<open>
  \<^verbatim>\<open>createPredictionRequest\<close>. The result is the request or the error, the input map as
  the caller sees it after the call, and the base payload as the caller sees it after the
  call: \<open>None\<close> when the caller passed \<^verbatim>\<open>nil\<close>, since the map made for it is the
  builder's own.
\<close>

definition createPredictionRequest ::
  "(gomap \<Rightarrow> error + string) \<Rightarrow> (string \<Rightarrow> string \<Rightarrow> string \<Rightarrow> error + 'req) \<Rightarrow>
   string \<Rightarrow> gomap option \<Rightarrow> gomap option \<Rightarrow> Webhook option \<Rightarrow> bool \<Rightarrow>
   (error + 'req) \<times> gomap option \<times> gomap option" where
  "createPredictionRequest marshal newRequest path data input webhook stream =
     (case requestPayload data input webhook stream of
        ((input1, payload), Some e) \<Rightarrow> (Inl e, input1, data)
      | ((input1, payload), None) \<Rightarrow>
          (serializeRequest marshal newRequest path payload, input1,
           (case data of None \<Rightarrow> None | Some d \<Rightarrow> Some payload)))"

section \<open>The prediction operations\<close>

text \<open>
  Modelled from the spec: the type of a parsed identifier is declared outside
  \<^verbatim>\<open>prediction.go\<close>; the spec describes it as a structure with an owner, a name and
  an optional version, and the code reads its fields \<^verbatim>\<open>Owner\<close>, \<^verbatim>\<open>Name\<close> and
  \<^verbatim>\<open>Version\<close>, a pointer to a string.
\<close>

record Identifier =
  Owner :: string
  Name :: string
  Version :: "string option"

text \<open>
  Modelled from the spec: \<^verbatim>\<open>ParseIdentifier\<close> is defined outside \<^verbatim>\<open>prediction.go\<close>.
  The spec gives its contract (a string in, an owner, a name and an optional version out,
  or a failure on a malformed identifier) and two examples: \<^verbatim>\<open>owner/name\<close> parses with
  no version, \<^verbatim>\<open>abc123\<close> does not parse. This definition follows them, and reads
  an identifier with a version as \<^verbatim>\<open>owner/name:version\<close>. The operations take the
  parser as a parameter; this one serves where a concrete parser is needed.
\<close>

definition ParseIdentifier :: "string \<Rightarrow> error + Identifier" where
  "ParseIdentifier identifier =
     (case splitOn (CHR ''/'') identifier of
        [owner, rest] \<Rightarrow>
          (let name = takeWhile (\<lambda>c. c \<noteq> CHR '':'') rest;
               version = (case dropWhile (\<lambda>c. c \<noteq> CHR '':'') rest of
                            [] \<Rightarrow> None
                          | c # v \<Rightarrow> Some v)
           in Inr \<lparr>Owner = owner, Name = name, Version = version\<rparr>)
      | _ \<Rightarrow> Inl (Err ''invalid identifier''))"

text \<open>
  Lines 152 to 161 of \<^verbatim>\<open>CreatePrediction\<close>: the path of the request and the base
  payload, from the result of parsing the identifier.
\<close>

definition predictionTarget :: "(string \<Rightarrow> error + Identifier) \<Rightarrow> string \<Rightarrow> string \<times> gomap" where
  "predictionTarget parse identifier =
     (let path = ''/predictions'';
          data = []
      in case parse identifier of
           Inr ident \<Rightarrow>
             if Version ident = None
             then (''/models/'' @ Owner ident @ ''/'' @ Name ident @ ''/predictions'', data)
             else (path, AList.update ''version'' (VString identifier) data)
         | Inl err \<Rightarrow> (path, AList.update ''version'' (VString identifier) data))"

text \<open>
  Lines 163 to 173 of \<^verbatim>\<open>CreatePrediction\<close>: the request is built for the path and the
  base payload, which is a map of \<^verbatim>\<open>CreatePrediction\<close>'s own, and sent. The client's
  \<^verbatim>\<open>do\<close> sends the request and decodes the response into the value it is given; it is
  a parameter, from the request and the value before the call to the value after the call
  and the error, if any. The result is the prediction or the error, and the input map as
  the caller sees it after the call.
\<close>

definition createFromTarget ::
  "(gomap \<Rightarrow> error + string) \<Rightarrow> (string \<Rightarrow> string \<Rightarrow> string \<Rightarrow> error + 'req) \<Rightarrow>
   ('req \<Rightarrow> Prediction \<Rightarrow> Prediction \<times> error option) \<Rightarrow>
   string \<Rightarrow> gomap \<Rightarrow> gomap option \<Rightarrow> Webhook option \<Rightarrow> bool \<Rightarrow>
   (error + Prediction) \<times> gomap option" where
  "createFromTarget marshal newRequest do path data input webhook stream =
     (case createPredictionRequest marshal newRequest path (Some data) input webhook stream of
        (Inl err, input1, data1) \<Rightarrow> (Inl err, input1)
      | (Inr req, input1, data1) \<Rightarrow>
          (case do req emptyPrediction of
             (prediction, Some err) \<Rightarrow>
               (Inl (Wrapped ''failed to create prediction'' err), input1)
           | (prediction, None) \<Rightarrow> (Inr prediction, input1)))"

text \<open>\<^verbatim>\<open>CreatePrediction\<close>.\<close>

definition CreatePrediction ::
  "(string \<Rightarrow> error + Identifier) \<Rightarrow> (gomap \<Rightarrow> error + string) \<Rightarrow>
   (string \<Rightarrow> string \<Rightarrow> string \<Rightarrow> error + 'req) \<Rightarrow>
   ('req \<Rightarrow> Prediction \<Rightarrow> Prediction \<times> error option) \<Rightarrow>
   string \<Rightarrow> gomap option \<Rightarrow> Webhook option \<Rightarrow> bool \<Rightarrow> (error + Prediction) \<times> gomap option" where
  "CreatePrediction parse marshal newRequest do identifier input webhook stream =
     (case predictionTarget parse identifier of
        (path, data) \<Rightarrow> createFromTarget marshal newRequest do path data input webhook stream)"

text \<open>
  Modelled from the spec: the type \<^verbatim>\<open>Page\<close> is declared outside \<^verbatim>\<open>prediction.go\<close>;
  the spec describes it as a container holding a sequence of entities plus the cursors of
  the pagination.
\<close>

record 'a Page =
  Previous :: "string option"
  Next :: "string option"
  Results :: "'a list"

definition emptyPage :: "'a Page" where
  "emptyPage = \<lparr>Previous = None, Next = None, Results = []\<rparr>"

text \<open>
  \<^verbatim>\<open>ListPredictions\<close>, \<^verbatim>\<open>GetPrediction\<close> and \<^verbatim>\<open>CancelPrediction\<close>. The client's
  \<^verbatim>\<open>fetch\<close> (method, path, body, the value to decode into) is a parameter; each of the
  three calls it with no body. The source's variable \<^verbatim>\<open>id\<close> is \<open>ident\<close> here.
\<close>

definition ListPredictions ::
  "(string \<Rightarrow> string \<Rightarrow> string option \<Rightarrow> Prediction Page \<Rightarrow> Prediction Page \<times> error option) \<Rightarrow>
   error + Prediction Page" where
  "ListPredictions fetch =
     (case fetch ''GET'' ''/predictions'' None emptyPage of
        (response, Some err) \<Rightarrow> Inl (Wrapped ''failed to list predictions'' err)
      | (response, None) \<Rightarrow> Inr response)"

definition GetPrediction ::
  "(string \<Rightarrow> string \<Rightarrow> string option \<Rightarrow> Prediction \<Rightarrow> Prediction \<times> error option) \<Rightarrow>
   string \<Rightarrow> error + Prediction" where
  "GetPrediction fetch ident =
     (case fetch ''GET'' (''/predictions/'' @ ident) None emptyPrediction of
        (prediction, Some err) \<Rightarrow> Inl (Wrapped ''failed to get prediction'' err)
      | (prediction, None) \<Rightarrow> Inr prediction)"

definition CancelPrediction ::
  "(string \<Rightarrow> string \<Rightarrow> string option \<Rightarrow> Prediction \<Rightarrow> Prediction \<times> error option) \<Rightarrow>
   string \<Rightarrow> error + Prediction" where
  "CancelPrediction fetch ident =
     (case fetch ''POST'' (''/predictions/'' @ ident @ ''/cancel'') None emptyPrediction of
        (prediction, Some err) \<Rightarrow> Inl (Wrapped ''failed to cancel prediction'' err)
      | (prediction, None) \<Rightarrow> Inr prediction)"

section \<open>Collaborators for the examples\<close>

text \<open>
  The theorems take the collaborators of the program as parameters. The examples need
  concrete ones. \<open>unmarshalObject\<close> does what \<^verbatim>\<open>json.Unmarshal\<close> does with a struct
  on the two payloads of the examples: the empty object \<^verbatim>\<open>{}\<close> decodes and sets no
  field; the empty array \<^verbatim>\<open>[]\<close> is valid JSON, so the decoder of the standard library
  calls \<^verbatim>\<open>UnmarshalJSON\<close> with it, and decoding it into the fields fails with a type
  error.
\<close>

definition unmarshalObject :: unmarshaler where
  "unmarshalObject data alias =
     (if data = ''{}'' then (alias, None)
      else (alias, Some (Err ''json: cannot unmarshal array into Go value of type struct'')))"

text \<open>
  The syntax check of the standard library on the payloads of the examples: the empty
  object and the empty array, with any white space around them, are valid.
\<close>

definition validEmpty :: "string \<Rightarrow> bool" where
  "validEmpty payload = (valueBytes payload = ''{}'' \<or> valueBytes payload = ''[]'')"

text \<open>
  A serializer that lists the entries of the payload, showing the strings and the truth
  values and hiding the other values, a \<^verbatim>\<open>newRequest\<close> that records its three
  arguments, and transports that succeed (the response names the prediction \<^verbatim>\<open>p1\<close>)
  or fail.
\<close>

fun renderValue :: "goval \<Rightarrow> string" where
  "renderValue (VString s) = s"
| "renderValue (VBool b) = (if b then ''true'' else ''false'')"
| "renderValue v = ''_''"

definition marshalFlat :: "gomap \<Rightarrow> error + string" where
  "marshalFlat payload = Inr (concat (map (\<lambda>(k, v). k @ ''='' @ renderValue v @ '';'') payload))"

definition recordRequest :: "string \<Rightarrow> string \<Rightarrow> string \<Rightarrow> error + string \<times> string \<times> string" where
  "recordRequest method path body = Inr (method, path, body)"

definition doRespond :: "string \<times> string \<times> string \<Rightarrow> Prediction \<Rightarrow> Prediction \<times> error option" where
  "doRespond req p = (p\<lparr>ID := ''p1''\<rparr>, None)"

definition doRefuse :: "string \<times> string \<times> string \<Rightarrow> Prediction \<Rightarrow> Prediction \<times> error option" where
  "doRefuse req p = (p, Some (Err ''connection refused''))"

definition fetchRespond ::
  "string \<Rightarrow> string \<Rightarrow> string option \<Rightarrow> Prediction \<Rightarrow> Prediction \<times> error option" where
  "fetchRespond method path body p = (p\<lparr>ID := ''p1''\<rparr>, None)"

definition fetchRefuse ::
  "string \<Rightarrow> string \<Rightarrow> string option \<Rightarrow> 'a \<Rightarrow> 'a \<times> error option" where
  "fetchRefuse method path body out = (out, Some (Err ''connection refused''))"

definition fetchPage ::
  "string \<Rightarrow> string \<Rightarrow> string option \<Rightarrow> Prediction Page \<Rightarrow> Prediction Page \<times> error option" where
  "fetchPage method path body page = (page\<lparr>Results := [emptyPrediction\<lparr>ID := ''p1''\<rparr>]\<rparr>, None)"

section \<open>Properties of the progress parser\<close>

subsection \<open>A trailing character that is not a digit does not make a line match\<close>

lemma reDigits_Nil: "reDigits [] = None"
  by (simp add: reDigits_def)

lemma reDigits_nondigit: "\<not> reDigit c \<Longrightarrow> reDigits (c # s) = None"
  by (simp add: reDigits_def)

lemma reDigits_snoc:
  assumes c: "\<not> reDigit c"
  shows "reDigits (x @ [c]) = (case reDigits x of None \<Rightarrow> None | Some (d, r) \<Rightarrow> Some (d, r @ [c]))"
proof (cases "\<forall>z\<in>set x. reDigit z")
  case True
  have 1: "takeWhile reDigit (x @ [c]) = x"
    using True c by simp
  have 2: "dropWhile reDigit (x @ [c]) = [c]"
    using True c by simp
  have 3: "takeWhile reDigit x = x"
    using True by simp
  have 4: "dropWhile reDigit x = []"
    using True by simp
  show ?thesis
    unfolding reDigits_def 1 2 3 4 by simp
next
  case False
  from False obtain z where z: "z \<in> set x" "\<not> reDigit z"
    by blast
  have 1: "takeWhile reDigit (x @ [c]) = takeWhile reDigit x"
    using z by (rule takeWhile_append1)
  have 2: "dropWhile reDigit (x @ [c]) = dropWhile reDigit x @ [c]"
    using z by (rule dropWhile_append1)
  show ?thesis
    unfolding reDigits_def 1 2 by simp
qed

lemma reLit_snoc:
  "reLit k (x @ [c]) = Some s \<Longrightarrow>
     (x = [] \<and> s = []) \<or> (\<exists>s'. reLit k x = Some s' \<and> s = s' @ [c])"
  by (cases x) (simp_all add: reLit_def split: if_splits)

lemma reSpace_snoc:
  "\<not> reDigit c \<Longrightarrow> reDigits (dropWhile reSpace (x @ [c])) = Some dr \<Longrightarrow>
     dropWhile reSpace (x @ [c]) = dropWhile reSpace x @ [c]"
proof (cases "\<forall>z\<in>set x. reSpace z")
  case True
  assume c: "\<not> reDigit c" and d: "reDigits (dropWhile reSpace (x @ [c])) = Some dr"
  from True have "dropWhile reSpace (x @ [c]) = dropWhile reSpace [c]"
    by simp
  with c d show ?thesis
    by (simp add: reDigits_Nil reDigits_nondigit split: if_splits)
next
  case False
  then obtain z where "z \<in> set x" "\<not> reSpace z"
    by blast
  then show ?thesis by (rule dropWhile_append1)
qed

lemma reTail_snoc:
  assumes c: "\<not> reDigit c" and m: "reTail (x @ [c]) \<noteq> None"
  shows "reTail x \<noteq> None"
proof -
  from m obtain s1 cur s2 s3 tot rest where
    l1: "reLit (CHR ''|'') (x @ [c]) = Some s1" and
    d1: "reDigits (dropWhile reSpace s1) = Some (cur, s2)" and
    l2: "reLit (CHR ''/'') s2 = Some s3" and
    d2: "reDigits s3 = Some (tot, rest)"
    by (auto simp: reTail_def split: option.splits)
  have "s1 \<noteq> []"
    using d1 by (auto simp: reDigits_Nil)
  with reLit_snoc[OF l1]
  obtain t1 where t1: "reLit (CHR ''|'') x = Some t1" "s1 = t1 @ [c]"
    by auto
  from c d1[unfolded t1(2)] have "dropWhile reSpace (t1 @ [c]) = dropWhile reSpace t1 @ [c]"
    by (rule reSpace_snoc)
  then have "dropWhile reSpace s1 = dropWhile reSpace t1 @ [c]"
    by (simp add: t1(2))
  with d1 c obtain t2 where t2: "reDigits (dropWhile reSpace t1) = Some (cur, t2)" "s2 = t2 @ [c]"
    by (auto simp: reDigits_snoc split: option.splits)
  have "s3 \<noteq> []"
    using d2 by (auto simp: reDigits_Nil)
  with reLit_snoc[OF l2[unfolded t2(2)]]
  obtain t3 where t3: "reLit (CHR ''/'') t2 = Some t3" "s3 = t3 @ [c]"
    by auto
  from d2 t3 c obtain t4 where t4: "reDigits t3 = Some (tot, t4)"
    by (auto simp: reDigits_snoc split: option.splits)
  from t1 t2 t3 t4 show ?thesis
    by (simp add: reTail_def)
qed

lemma reTail_Nil: "reTail [] = None"
  by (simp add: reTail_def reLit_def)

lemma reLazy_snoc:
  "\<not> reDigit c \<Longrightarrow> reLazy (x @ [c]) \<noteq> None \<Longrightarrow> reLazy x \<noteq> None"
proof (induction x)
  case Nil
  then show ?case by (auto simp: reTail_Nil split: if_splits)
next
  case (Cons a x)
  from Cons.prems have a: "reAny a"
    by (auto split: if_splits)
  show ?case
  proof (cases "reTail (x @ [c])")
    case None
    with Cons.prems a have "reLazy (x @ [c]) \<noteq> None"
      by simp
    with Cons.IH Cons.prems(1) have "reLazy x \<noteq> None"
      by simp
    with a show ?thesis
      by (simp split: option.splits)
  next
    case (Some r)
    then have "reTail (x @ [c]) \<noteq> None"
      by simp
    with Cons.prems(1) have "reTail x \<noteq> None"
      by (rule reTail_snoc)
    with a show ?thesis
      by (auto split: option.splits)
  qed
qed

lemma reFind_snoc:
  assumes c: "\<not> reDigit c" and m: "reFind (x @ [c]) \<noteq> None"
  shows "reFind x \<noteq> None"
proof -
  from m obtain pct s1 s2 s3 where
    d1: "reDigits (dropWhile reSpace (x @ [c])) = Some (pct, s1)" and
    l1: "reLit (CHR ''%'') s1 = Some s2" and
    l2: "reLit (CHR ''|'') (dropWhile reSpace s2) = Some s3" and
    z: "reLazy s3 \<noteq> None"
    by (auto simp: reFind_def split: option.splits)
  from c d1 have "dropWhile reSpace (x @ [c]) = dropWhile reSpace x @ [c]"
    by (rule reSpace_snoc)
  with d1 c obtain t1 where t1: "reDigits (dropWhile reSpace x) = Some (pct, t1)" "s1 = t1 @ [c]"
    by (auto simp: reDigits_snoc split: option.splits)
  have "s2 \<noteq> []"
    using l2 by (auto simp: reLit_def)
  with reLit_snoc[OF l1[unfolded t1(2)]]
  obtain t2 where t2: "reLit (CHR ''%'') t1 = Some t2" "s2 = t2 @ [c]"
    by auto
  have "dropWhile reSpace s2 = dropWhile reSpace t2 @ [c]"
  proof (cases "\<forall>z\<in>set t2. reSpace z")
    case True
    with t2 have "dropWhile reSpace s2 = dropWhile reSpace [c]"
      by simp
    with l2 z show ?thesis
      by (auto simp: reLit_def split: if_splits)
  next
    case False
    then obtain z where "z \<in> set t2" "\<not> reSpace z"
      by blast
    then have "dropWhile reSpace (t2 @ [c]) = dropWhile reSpace t2 @ [c]"
      by (rule dropWhile_append1)
    with t2 show ?thesis
      by simp
  qed
  moreover have "s3 \<noteq> []"
    using z by auto
  ultimately obtain t3 where
    t3: "reLit (CHR ''|'') (dropWhile reSpace t2) = Some t3" "s3 = t3 @ [c]"
    using reLit_snoc[of "CHR ''|''" "dropWhile reSpace t2" c s3] l2 by auto
  from c z[unfolded t3(2)] have "reLazy t3 \<noteq> None"
    by (rule reLazy_snoc)
  with t1 t2 t3 show ?thesis
    by (auto simp: reFind_def split: option.splits)
qed

subsection \<open>Trimming a matching line leaves a matching line\<close>

lemma MatchString_drop_nondigits:
  "\<forall>c\<in>set e. \<not> reDigit c \<Longrightarrow> MatchString (x @ e) \<Longrightarrow> MatchString x"
proof (induction e rule: rev_induct)
  case Nil
  then show ?case by simp
next
  case (snoc c e)
  from snoc.prems have "\<not> reDigit c" and "reFind ((x @ e) @ [c]) \<noteq> None"
    by (simp_all add: MatchString_def)
  then have "reFind (x @ e) \<noteq> None"
    by (rule reFind_snoc)
  with snoc show ?case
    by (simp add: MatchString_def)
qed

lemma reSpace_asciiSpace: "reSpace c \<Longrightarrow> c \<in> set asciiSpace"
  by (auto simp: reSpace_def asciiSpace_def)

lemma asciiSpace_nondigit: "c \<in> set asciiSpace \<Longrightarrow> \<not> reDigit c"
  by (auto simp: asciiSpace_def reDigit_def)

lemma spaceRunes2_nondigit: "\<forall>e\<in>set spaceRunes2. \<forall>c\<in>set e. \<not> reDigit c"
  by (simp add: spaceRunes2_def reDigit_def)

lemma spaceRunes3_nondigit: "\<forall>e\<in>set spaceRunes3. \<forall>c\<in>set e. \<not> reDigit c"
  by (simp add: spaceRunes3_def reDigit_def)

lemma spaceWidthEnd_suffix:
  assumes "spaceWidthEnd s \<noteq> 0"
  shows "\<forall>c\<in>set (drop (length s - spaceWidthEnd s) s). \<not> reDigit c"
proof (cases "s \<noteq> [] \<and> last s \<in> set asciiSpace")
  case True
  then have "spaceWidthEnd s = 1"
    by (simp add: spaceWidthEnd_def)
  moreover from True have "drop (length s - 1) s = [last s]"
    by (cases s rule: rev_cases) simp_all
  ultimately show ?thesis
    using True by (simp add: asciiSpace_nondigit)
next
  case False
  show ?thesis
  proof (cases "drop (length s - 2) s \<in> set spaceRunes2")
    case True
    with False have "spaceWidthEnd s = 2"
      by (simp add: spaceWidthEnd_def)
    with True spaceRunes2_nondigit show ?thesis
      by simp
  next
    case n2: False
    from False n2 assms have "drop (length s - 3) s \<in> set spaceRunes3"
      by (simp add: spaceWidthEnd_def split: if_splits)
    moreover from this False n2 have "spaceWidthEnd s = 3"
      by (simp add: spaceWidthEnd_def)
    ultimately show ?thesis
      using spaceRunes3_nondigit by simp
  qed
qed

lemma MatchString_TrimRight: "MatchString s \<Longrightarrow> MatchString (TrimRight s)"
proof (induction s rule: TrimRight.induct)
  case (1 s)
  show ?case
  proof (cases "spaceWidthEnd s = 0")
    case True
    with 1 show ?thesis
      by (simp add: TrimRight.simps)
  next
    case False
    let ?n = "length s - spaceWidthEnd s"
    have "MatchString (take ?n s @ drop ?n s)"
      using "1.prems" by simp
    with spaceWidthEnd_suffix[OF False] have "MatchString (take ?n s)"
      by (rule MatchString_drop_nondigits)
    with "1.IH" False have "MatchString (TrimRight (take ?n s))"
      by simp
    with False show ?thesis
      by (subst TrimRight.simps) simp
  qed
qed

lemma spaceWidth_digit:
  assumes "reDigit c"
  shows "spaceWidth (c # s) = 0"
proof -
  have 1: "c \<notin> set asciiSpace"
    using assms asciiSpace_nondigit by blast
  have "c \<in> set (take 2 (c # s))" and "c \<in> set (take 3 (c # s))"
    by simp_all
  with assms have 2: "take 2 (c # s) \<notin> set spaceRunes2" and 3: "take 3 (c # s) \<notin> set spaceRunes3"
    using spaceRunes2_nondigit spaceRunes3_nondigit by blast+
  show ?thesis
    unfolding spaceWidth_def using 1 2 3 by simp
qed

lemma TrimLeft_dropWhile:
  "reDigits (dropWhile reSpace s) \<noteq> None \<Longrightarrow> TrimLeft s = dropWhile reSpace s"
proof (induction s)
  case Nil
  then show ?case by (simp add: reDigits_Nil)
next
  case (Cons c s)
  show ?case
  proof (cases "reSpace c")
    case True
    then have "spaceWidth (c # s) = 1"
      by (simp add: spaceWidth_def reSpace_asciiSpace)
    then have "TrimLeft (c # s) = TrimLeft s"
      by (subst TrimLeft.simps) simp
    with Cons True show ?thesis
      by simp
  next
    case False
    with Cons.prems have "reDigit c"
      by (auto simp: reDigits_def split: if_splits)
    then have "spaceWidth (c # s) = 0"
      by (rule spaceWidth_digit)
    then have "TrimLeft (c # s) = c # s"
      by (subst TrimLeft.simps) simp
    with False show ?thesis
      by simp
  qed
qed

lemma MatchString_dropWhile: "MatchString (dropWhile reSpace s) = MatchString s"
  by (simp add: MatchString_def reFind_def split: option.splits)

lemma MatchString_TrimSpace:
  assumes "MatchString s"
  shows "MatchString (TrimSpace s)"
proof -
  from assms have "reDigits (dropWhile reSpace s) \<noteq> None"
    by (simp add: MatchString_def reFind_def split: option.splits)
  then have "TrimLeft s = dropWhile reSpace s"
    by (rule TrimLeft_dropWhile)
  with assms show ?thesis
    by (simp add: TrimSpace_def MatchString_TrimRight MatchString_dropWhile)
qed

subsection \<open>The loop over the lines\<close>

lemma reFind_length: "reFind s = Some ms \<Longrightarrow> length ms = 4"
  by (auto simp: reFind_def split: option.splits)

lemma accept_iff:
  "(MatchString (TrimSpace l) \<and> length (FindStringSubmatch l) = 4) = MatchString l"
proof (cases "reFind l")
  case None
  then show ?thesis
    by (simp add: FindStringSubmatch_def MatchString_def)
next
  case (Some ms)
  then have "MatchString l"
    by (simp add: MatchString_def)
  with Some show ?thesis
    by (simp add: FindStringSubmatch_def MatchString_TrimSpace reFind_length)
qed

lemma scanLines_filter:
  "n \<le> length lines \<Longrightarrow>
   scanLines lines n =
     (if filter MatchString (take n lines) = [] then None
      else Some (snapshot (FindStringSubmatch (last (filter MatchString (take n lines))))))"
proof (induction n)
  case 0
  then show ?case by simp
next
  case (Suc i)
  then have i: "i < length lines" and IH: "scanLines lines i =
     (if filter MatchString (take i lines) = [] then None
      else Some (snapshot (FindStringSubmatch (last (filter MatchString (take i lines))))))"
    by simp_all
  have t: "take (Suc i) lines = take i lines @ [lines ! i]"
    using i by (rule take_Suc_conv_app_nth)
  show ?case
  proof (cases "MatchString (lines ! i)")
    case True
    then have "MatchString (TrimSpace (lines ! i))" and "length (FindStringSubmatch (lines ! i)) = 4"
      using accept_iff[of "lines ! i"] by simp_all
    with True show ?thesis
      by (simp add: t)
  next
    case False
    then have "\<not> (MatchString (TrimSpace (lines ! i)) \<and> length (FindStringSubmatch (lines ! i)) = 4)"
      using accept_iff[of "lines ! i"] by simp
    then have "scanLines lines (Suc i) = scanLines lines i"
      by (auto simp: Let_def)
    with False IH show ?thesis
      by (simp add: t)
  qed
qed

lemma splitOn_not_Nil: "splitOn sep s \<noteq> []"
  by (induction s) (auto split: list.splits)

lemma Split_not_Nil: "Split s \<noteq> []"
  by (simp add: Split_def splitOn_not_Nil)

lemma MatchString_Nil: "\<not> MatchString []"
  by (simp add: MatchString_def reFind_def reDigits_Nil)

lemma Progress_filter:
  "Logs p = Some logs \<Longrightarrow>
   Progress p =
     (if filter MatchString (Split logs) = [] then None
      else Some (snapshot (FindStringSubmatch (last (filter MatchString (Split logs))))))"
proof (cases "logs = []")
  case True
  assume "Logs p = Some logs"
  with True show ?thesis
    by (simp add: Progress_def Split_def MatchString_Nil)
next
  case False
  assume "Logs p = Some logs"
  with False show ?thesis
    by (simp add: Progress_def Split_not_Nil scanLines_filter)
qed

text \<open>
  Claim C4. For every logs string with at least one line that matches the progress
  pattern, \<open>Progress\<close> returns the snapshot parsed from the last matching line of the
  string, not from an earlier one. A line matches when the pattern matches the line as
  \<^verbatim>\<open>strings.Split\<close> gives it.
\<close>

theorem Progress_last_matching_line:
  assumes "Logs p = Some logs" and "\<exists>l\<in>set (Split logs). MatchString l"
  shows "Progress p = Some (snapshot (FindStringSubmatch (last (filter MatchString (Split logs)))))"
proof -
  from assms(2) have "filter MatchString (Split logs) \<noteq> []"
    by (simp add: filter_empty_conv)
  with Progress_filter[OF assms(1)] show ?thesis
    by simp
qed

subsection \<open>The percentage\<close>


lemma digitVal_nonneg: "reDigit c \<Longrightarrow> 0 \<le> digitVal c"
  by (auto simp: reDigit_def digitVal_def)

lemma foldl_decimal_nonneg:
  "\<forall>c\<in>set ds. reDigit c \<Longrightarrow> 0 \<le> n \<Longrightarrow> 0 \<le> foldl (\<lambda>n c. 10 * n + digitVal c) n ds"
proof (induction ds arbitrary: n)
  case Nil
  then show ?case by simp
next
  case (Cons c ds)
  then have "0 \<le> 10 * n + digitVal c"
    using digitVal_nonneg[of c] by simp
  with Cons show ?case
    by simp
qed

lemma decimal_nonneg: "\<forall>c\<in>set ds. reDigit c \<Longrightarrow> 0 \<le> decimal ds"
  by (simp add: decimal_def foldl_decimal_nonneg)

lemma Sscanf_d_digits:
  assumes "ds \<noteq> []" and "\<forall>c\<in>set ds. reDigit c"
  shows "Sscanf_d ds x = (if decimal ds \<le> maxInt64 then decimal ds else x)"
proof -
  from assms(2) have tw: "takeWhile reDigit ds = ds"
    by simp
  show ?thesis
    unfolding Sscanf_d_def Let_def tw using assms(1) by simp
qed

lemma reDigits_Some:
  "reDigits s = Some (d, r) \<Longrightarrow> d \<noteq> [] \<and> (\<forall>c\<in>set d. reDigit c)"
  by (auto simp: reDigits_def split: if_splits dest: set_takeWhileD)

lemma reFind_percentage:
  assumes "reFind l = Some ms"
  shows "ms ! 1 \<noteq> [] \<and> (\<forall>c\<in>set (ms ! 1). reDigit c)"
proof -
  from assms obtain pct s1 m0 cur tot where
    "reDigits (dropWhile reSpace l) = Some (pct, s1)" and "ms = [m0, pct, cur, tot]"
    by (auto simp: reFind_def split: option.splits)
  then show ?thesis
    using reDigits_Some[of "dropWhile reSpace l" pct s1] by simp
qed

lemma last_filter_in: "filter P xs \<noteq> [] \<Longrightarrow> last (filter P xs) \<in> set xs \<and> P (last (filter P xs))"
  using last_in_set[of "filter P xs"] by auto

text \<open>
  Claim C5, as amended. For every progress snapshot that \<open>Progress\<close> returns, the
  percentage field is the integer read from the matched percentage digits divided by 100,
  where that integer is the decimal value of the digits, or 0 when the value does not fit
  a signed 64-bit integer. The field is never negative, and it is at most 1 exactly when
  that integer is at most 100: a percentage above 100 in the log is not clamped. The
  matched digits are the first capture on the last matching line.
\<close>

theorem Progress_percentage:
  assumes "Logs p = Some logs" and "Progress p = Some r"
  shows "let ds = FindStringSubmatch (last (filter MatchString (Split logs))) ! 1;
             percentage = (if decimal ds \<le> maxInt64 then decimal ds else 0)
         in ds \<noteq> [] \<and> (\<forall>c\<in>set ds. reDigit c) \<and>
            Percentage r = real_of_int percentage / 100 \<and>
            0 \<le> Percentage r \<and>
            (Percentage r \<le> 1 \<longleftrightarrow> percentage \<le> 100)"
proof -
  define l where "l = last (filter MatchString (Split logs))"
  define ds where "ds = FindStringSubmatch l ! 1"
  from assms have ne: "filter MatchString (Split logs) \<noteq> []"
    and r: "r = snapshot (FindStringSubmatch l)"
    by (auto simp: Progress_filter l_def split: if_splits)
  from ne have "MatchString l"
    unfolding l_def using last_filter_in by blast
  then obtain ms where ms: "reFind l = Some ms"
    by (auto simp: MatchString_def)
  have ds: "ds \<noteq> []" "\<forall>c\<in>set ds. reDigit c"
    using reFind_percentage[OF ms] ms by (simp_all add: ds_def FindStringSubmatch_def)
  define pct where "pct = (if decimal ds \<le> maxInt64 then decimal ds else 0)"
  from ds have s: "Sscanf_d ds 0 = pct"
    unfolding pct_def by (rule Sscanf_d_digits)
  have "Percentage r = real_of_int (Sscanf_d ds 0) / 100"
    unfolding r snapshot_def Let_def ds_def by simp
  then have p: "Percentage r = real_of_int pct / 100"
    by (simp only: s)
  have "0 \<le> decimal ds"
    using ds(2) by (rule decimal_nonneg)
  then have "0 \<le> pct"
    by (simp add: pct_def)
  then have 1: "0 \<le> Percentage r"
    by (simp add: p)
  have 2: "(Percentage r \<le> 1) = (pct \<le> 100)"
    by (simp add: p)
  from ds p 1 2 show ?thesis
    unfolding Let_def ds_def[symmetric] l_def[symmetric] pct_def[symmetric] by simp
qed

subsection \<open>Concrete logs\<close>

text \<open>
  The theorem of claim C4 on three lines, the first two matching: the snapshot is that of
  the second line.
\<close>

theorem Progress_last_matching_line_witness:
  "Logs (emptyPrediction\<lparr>Logs := Some (''10%|x|5/50'' @ [newline] @ ''20%|y|10/50'' @ [newline] @ ''not a progress line'')\<rparr>)
     = Some (''10%|x|5/50'' @ [newline] @ ''20%|y|10/50'' @ [newline] @ ''not a progress line'') \<and>
   (\<exists>l\<in>set (Split (''10%|x|5/50'' @ [newline] @ ''20%|y|10/50'' @ [newline] @ ''not a progress line'')). MatchString l) \<and>
   Progress (emptyPrediction\<lparr>Logs := Some (''10%|x|5/50'' @ [newline] @ ''20%|y|10/50'' @ [newline] @ ''not a progress line'')\<rparr>)
     = Some \<lparr>Percentage = 20 / 100, Current = 10, Total = 50\<rparr>"
proof -
  let ?logs = "''10%|x|5/50'' @ [newline] @ ''20%|y|10/50'' @ [newline] @ ''not a progress line''"
  let ?p = "emptyPrediction\<lparr>Logs := Some ?logs\<rparr>"
  have h1: "Logs ?p = Some ?logs"
    by simp
  have h2: "\<exists>l\<in>set (Split ?logs). MatchString l"
    by code_simp
  have "snapshot (FindStringSubmatch (last (filter MatchString (Split ?logs))))
          = \<lparr>Percentage = 20 / 100, Current = 10, Total = 50\<rparr>"
    by code_simp
  with Progress_last_matching_line[OF h1 h2] h1 h2 show ?thesis
    by simp
qed

text \<open>The theorem of claim C5 on a line that reports 45 percent.\<close>

theorem Progress_percentage_witness:
  "Logs (emptyPrediction\<lparr>Logs := Some ''  45% |####|9/20  ''\<rparr>) = Some ''  45% |####|9/20  '' \<and>
   Progress (emptyPrediction\<lparr>Logs := Some ''  45% |####|9/20  ''\<rparr>)
     = Some \<lparr>Percentage = 45 / 100, Current = 9, Total = 20\<rparr> \<and>
   FindStringSubmatch (last (filter MatchString (Split ''  45% |####|9/20  ''))) ! 1 = ''45'' \<and>
   decimal ''45'' = 45 \<and>
   Percentage \<lparr>Percentage = 45 / 100, Current = 9, Total = 20\<rparr> = real_of_int 45 / 100 \<and>
   0 \<le> Percentage \<lparr>Percentage = 45 / 100, Current = 9, Total = 20\<rparr> \<and>
   Percentage \<lparr>Percentage = 45 / 100, Current = 9, Total = 20\<rparr> \<le> 1"
proof -
  let ?logs = "''  45% |####|9/20  ''"
  let ?p = "emptyPrediction\<lparr>Logs := Some ?logs\<rparr>"
  let ?r = "\<lparr>Percentage = 45 / 100, Current = 9, Total = 20\<rparr>"
  have h1: "Logs ?p = Some ?logs"
    by simp
  have h2: "Progress ?p = Some ?r"
    by code_simp
  have d: "FindStringSubmatch (last (filter MatchString (Split ?logs))) ! 1 = ''45''"
    by code_simp
  have v: "decimal ''45'' = 45" "(45::int) \<le> maxInt64"
    by code_simp+
  from Progress_percentage[OF h1 h2] h1 h2 d v show ?thesis
    by (simp add: Let_def)
qed

text \<open>
  Claim C5 as the spec states it puts the percentage between 0 and 1. A line that reports
  250 percent gives 2.5.
\<close>

theorem Progress_percentage_counterexample:
  "Progress (emptyPrediction\<lparr>Logs := Some ''250%|x|1/2''\<rparr>)
     = Some \<lparr>Percentage = 250 / 100, Current = 1, Total = 2\<rparr> \<and>
   \<not> Percentage \<lparr>Percentage = 250 / 100, Current = 1, Total = 2\<rparr> \<le> 1"
  by code_simp

section \<open>The raw payload\<close>

lemma rawJSON_extend:
  "rawJSON (PredictionFields.extend alias (PredictionFields.more q)) = rawJSON q"
  by (cases q) (simp add: PredictionFields.defs)

lemma extend_truncate:
  "PredictionFields.extend (PredictionFields.truncate q) (PredictionFields.more q) = q"
  by (cases q) (simp add: PredictionFields.defs)

lemma UnmarshalJSON_rawJSON: "rawJSON (fst (UnmarshalJSON unmarshal p data)) = data"
  by (simp add: UnmarshalJSON_def Let_def rawJSON_extend split: prod.splits)

lemma decodeAll_rawJSON:
  "rawJSON (decodeAll unmarshal p payloads) = (if payloads = [] then rawJSON p else last payloads)"
  by (induction payloads arbitrary: p) (simp_all add: UnmarshalJSON_rawJSON)

text \<open>
  Claim C2, as amended. After every call of the decode hook with a payload, successful or
  not, the raw payload of the value is that payload. So over a history of decodes into one
  value it is the payload of the last decode, whether or not that decode succeeded: it
  is repopulated on every successful decode, and after a failed decode it is the payload
  that failed, not the one decoded before. A value that was never decoded keeps the raw
  payload it had.
\<close>

theorem rawJSON_is_last_payload:
  "RawJSON (fst (UnmarshalJSON unmarshal p data)) = data \<and>
   RawJSON (decodeAll unmarshal p payloads) = (if payloads = [] then RawJSON p else last payloads)"
  by (simp add: RawJSON_def UnmarshalJSON_rawJSON decodeAll_rawJSON)

text \<open>The theorem of claim C2 on a successful decode followed by a failed one.\<close>

theorem rawJSON_is_last_payload_witness:
  "RawJSON (fst (UnmarshalJSON unmarshalObject emptyPrediction ''{}'')) = ''{}'' \<and>
   RawJSON (decodeAll unmarshalObject emptyPrediction [''{}'', ''[]'']) = ''[]''"
  using rawJSON_is_last_payload[of unmarshalObject emptyPrediction "''{}''" "[''{}'', ''[]'']"]
  by simp

text \<open>
  Claim C2 as the spec states it keeps, after a failed decode, the payload of the last
  successful one. Decoding \<^verbatim>\<open>{}\<close> succeeds; decoding \<^verbatim>\<open>[]\<close> over the result fails, and
  the raw payload is then \<^verbatim>\<open>[]\<close>.
\<close>

theorem rawJSON_after_failed_decode_counterexample:
  "snd (UnmarshalJSON unmarshalObject emptyPrediction ''{}'') = None \<and>
   RawJSON (fst (UnmarshalJSON unmarshalObject emptyPrediction ''{}'')) = ''{}'' \<and>
   snd (UnmarshalJSON unmarshalObject (fst (UnmarshalJSON unmarshalObject emptyPrediction ''{}'')) ''[]'') \<noteq> None \<and>
   RawJSON (fst (UnmarshalJSON unmarshalObject (fst (UnmarshalJSON unmarshalObject emptyPrediction ''{}'')) ''[]'')) \<noteq> ''{}''"
  by (simp add: RawJSON_def UnmarshalJSON_def Let_def unmarshalObject_def rawJSON_extend)

subsection \<open>Decoding a payload\<close>

lemma dropWhile_id_iff: "(dropWhile P xs = xs) = (xs = [] \<or> \<not> P (hd xs))"
proof (cases xs)
  case Nil
  then show ?thesis by simp
next
  case (Cons a list)
  have "length (dropWhile P list) < length (a # list)"
    using length_dropWhile_le[of P list] by simp
  then have "dropWhile P list \<noteq> a # list"
    by auto
  with Cons show ?thesis
    by simp
qed

lemma valueBytes_length: "length (valueBytes s) \<le> length (dropWhile jsonSpace s)"
  unfolding valueBytes_def
  using length_dropWhile_le[of jsonSpace "rev (dropWhile jsonSpace s)"] by simp

lemma valueBytes_id_iff:
  "(valueBytes s = s) = (s = [] \<or> (\<not> jsonSpace (hd s) \<and> \<not> jsonSpace (last s)))"
proof (cases "s = []")
  case True
  then show ?thesis
    by (simp add: valueBytes_def)
next
  case False
  show ?thesis
  proof (cases "jsonSpace (hd s)")
    case True
    with False obtain c cs where s: "s = c # cs" "jsonSpace c"
      by (cases s) auto
    have "length (dropWhile jsonSpace s) \<le> length cs"
      using s length_dropWhile_le[of jsonSpace cs] by simp
    with valueBytes_length[of s] have "length (valueBytes s) < length s"
      using s by simp
    then have "valueBytes s \<noteq> s"
      by auto
    with True False show ?thesis
      by simp
  next
    case h: False
    with False have d: "dropWhile jsonSpace s = s"
      by (simp add: dropWhile_id_iff)
    from False have r: "rev s \<noteq> []" "hd (rev s) = last s"
      by (simp_all add: hd_rev)
    have "(valueBytes s = s) = (dropWhile jsonSpace (rev s) = rev s)"
      unfolding valueBytes_def d by (metis rev_rev_ident)
    also have "\<dots> = (\<not> jsonSpace (last s))"
      using r by (simp add: dropWhile_id_iff)
    finally show ?thesis
      using h False by simp
  qed
qed

lemma Unmarshal_rawJSON:
  assumes "Unmarshal valid unmarshal p payload = (p', None)"
  shows "rawJSON p' = valueBytes payload"
proof -
  from assms have "UnmarshalJSON unmarshal p (valueBytes payload) = (p', None)"
    by (simp add: Unmarshal_def split: if_splits)
  with UnmarshalJSON_rawJSON[of unmarshal p "valueBytes payload"] show ?thesis
    by simp
qed

text \<open>
  Claim C3, as amended. For every payload that decodes into a prediction without error,
  the accessor of the raw payload then returns the bytes of the payload's value, which are
  what the decoder hands to the hook: the payload without the JSON white space before and
  after the value. So it returns the original payload, byte for byte, exactly when the
  payload neither starts nor ends with a space, a tab, a carriage return or a line feed.
\<close>

theorem RawJSON_value_bytes:
  assumes "Unmarshal valid unmarshal p payload = (p', None)"
  shows "RawJSON p' = valueBytes payload \<and>
         (RawJSON p' = payload \<longleftrightarrow>
            payload = [] \<or> (\<not> jsonSpace (hd payload) \<and> \<not> jsonSpace (last payload)))"
  using Unmarshal_rawJSON[OF assms] valueBytes_id_iff[of payload]
  by (simp add: RawJSON_def)

text \<open>
  The theorem of claim C3 on the empty object alone, which comes back as it is, and on the
  empty object between spaces, which comes back without them.
\<close>

theorem RawJSON_value_bytes_witness:
  "Unmarshal validEmpty unmarshalObject emptyPrediction ''{}'' =
     (emptyPrediction\<lparr>rawJSON := ''{}''\<rparr>, None) \<and>
   RawJSON (emptyPrediction\<lparr>rawJSON := ''{}''\<rparr>) = ''{}'' \<and>
   Unmarshal validEmpty unmarshalObject emptyPrediction '' {} '' =
     (emptyPrediction\<lparr>rawJSON := ''{}''\<rparr>, None) \<and>
   valueBytes '' {} '' = ''{}''"
proof -
  have v1: "valueBytes ''{}'' = ''{}''" and v2: "valueBytes '' {} '' = ''{}''"
    by (simp_all add: valueBytes_def jsonSpace_def)
  have h1: "Unmarshal validEmpty unmarshalObject emptyPrediction ''{}'' =
              (emptyPrediction\<lparr>rawJSON := ''{}''\<rparr>, None)"
    by (simp add: Unmarshal_def validEmpty_def v1 UnmarshalJSON_def Let_def unmarshalObject_def
        extend_truncate)
  have h2: "Unmarshal validEmpty unmarshalObject emptyPrediction '' {} '' =
              (emptyPrediction\<lparr>rawJSON := ''{}''\<rparr>, None)"
    by (simp add: Unmarshal_def validEmpty_def v2 UnmarshalJSON_def Let_def unmarshalObject_def
        extend_truncate)
  from RawJSON_value_bytes[OF h1] RawJSON_value_bytes[OF h2] h1 h2 v1 v2 show ?thesis
    by simp
qed

text \<open>
  Claim C3 as the spec states it returns the original payload byte for byte. The payload
  \<^verbatim>\<open>{}\<close> followed by a line feed decodes without error, and the raw payload is then
  \<^verbatim>\<open>{}\<close>, without the line feed.
\<close>

theorem RawJSON_roundtrip_counterexample:
  "Unmarshal validEmpty unmarshalObject emptyPrediction (''{}'' @ [newline]) =
     (emptyPrediction\<lparr>rawJSON := ''{}''\<rparr>, None) \<and>
   RawJSON (emptyPrediction\<lparr>rawJSON := ''{}''\<rparr>) = ''{}'' \<and>
   ''{}'' \<noteq> ''{}'' @ [newline]"
proof -
  have "Unmarshal validEmpty unmarshalObject emptyPrediction (''{}'' @ [newline]) =
          (emptyPrediction\<lparr>rawJSON := ''{}''\<rparr>, None)"
    by (simp add: Unmarshal_def validEmpty_def valueBytes_def jsonSpace_def newline_def
        UnmarshalJSON_def Let_def unmarshalObject_def extend_truncate)
  then show ?thesis
    by (simp add: RawJSON_def)
qed

section \<open>The request builder: the conversion of files\<close>

lemma map_of_update: "map_of (AList.update k v al) k' = (if k' = k then Some v else map_of al k')"
  by (simp add: update_conv')

lemma convertFiles_entries:
  "snd (convertFiles keys input) = None \<Longrightarrow>
   map_of (fst (convertFiles keys input)) k =
     (if k \<in> set keys
      then (case map_of input k of
              Some (VFile (Some f)) \<Rightarrow> Some (VString (index (URLs f) ''get''))
            | v \<Rightarrow> v)
      else map_of input k)"
proof (induction keys arbitrary: input)
  case Nil
  then show ?case by simp
next
  case (Cons key keys)
  show ?case
  proof (cases "\<exists>f. map_of input key = Some (VFile (Some f))")
    case True
    then obtain f where f: "map_of input key = Some (VFile (Some f))"
      by blast
    let ?input = "AList.update key (VString (index (URLs f) ''get'')) input"
    from f have c: "convertFiles (key # keys) input = convertFiles keys ?input"
      by simp
    with Cons.prems have "snd (convertFiles keys ?input) = None"
      by simp
    from Cons.IH[OF this] c f show ?thesis
      by (simp add: map_of_update)
  next
    case False
    with Cons.prems have c: "convertFiles (key # keys) input = convertFiles keys input"
      by (auto split: option.splits goval.splits)
    with Cons.prems have "snd (convertFiles keys input) = None"
      by simp
    from Cons.IH[OF this] c False show ?thesis
      by (auto split: option.splits goval.splits)
  qed
qed

lemma convertFiles_all:
  assumes "convertFiles (map fst input) input = (m, None)"
  shows "map_of m k =
     (case map_of input k of
        Some (VFile (Some f)) \<Rightarrow> Some (VString (index (URLs f) ''get''))
      | v \<Rightarrow> v)"
proof -
  have "k \<notin> set (map fst input) \<Longrightarrow> map_of input k = None"
    by (simp add: map_of_eq_None_iff)
  with convertFiles_entries[of "map fst input" input k] assms show ?thesis
    by (cases "k \<in> set (map fst input)") simp_all
qed

lemma convertFiles_no_panic:
  "\<forall>k\<in>set keys. map_of input k \<noteq> Some (VFile None) \<Longrightarrow> snd (convertFiles keys input) = None"
proof (induction keys arbitrary: input)
  case Nil
  then show ?case by simp
next
  case (Cons key keys)
  show ?case
  proof (cases "\<exists>f. map_of input key = Some (VFile (Some f))")
    case True
    then obtain f where f: "map_of input key = Some (VFile (Some f))"
      by blast
    let ?input = "AList.update key (VString (index (URLs f) ''get'')) input"
    from Cons.prems have "\<forall>k\<in>set keys. map_of ?input k \<noteq> Some (VFile None)"
      by (simp add: map_of_update)
    from Cons.IH[OF this] f show ?thesis
      by simp
  next
    case False
    from Cons.prems have "\<forall>k\<in>set keys. map_of input k \<noteq> Some (VFile None)"
      by simp
    from Cons.IH[OF this] False Cons.prems show ?thesis
      by (auto split: option.splits goval.splits)
  qed
qed

section \<open>The request builder: the payload\<close>

lemma requestPayload_input:
  assumes "requestPayload data input webhook stream = ((input1, payload), None)"
  shows "(input = None \<and> input1 = None) \<or>
         (\<exists>m m1. input = Some m \<and> input1 = Some m1 \<and> convertFiles (map fst m) m = (m1, None))"
  using assms
  by (cases input) (auto simp: requestPayload_def Let_def split: prod.splits option.splits)

lemma requestPayload_payload:
  assumes "requestPayload data input webhook stream = ((input1, payload), None)"
  shows "payload =
     (let data1 = (case data of None \<Rightarrow> [] | Some d \<Rightarrow> d);
          data2 = AList.update ''input'' (VMap input1) data1;
          data3 =
            (case webhook of
               None \<Rightarrow> data2
             | Some w \<Rightarrow>
                 (let d = AList.update ''webhook'' (VString (URL w)) data2
                  in if length (Events w) > 0
                     then AList.update ''webhook_events_filter'' (VStrings (Events w)) d
                     else d))
      in if stream then AList.update ''stream'' (VBool True) data3 else data3)"
  using assms
  by (cases input) (auto simp: requestPayload_def Let_def split: prod.splits option.splits)

lemma requestPayload_no_panic:
  assumes "\<forall>m k. input = Some m \<longrightarrow> map_of m k \<noteq> Some (VFile None)"
  shows "\<exists>input1 payload. requestPayload data input webhook stream = ((input1, payload), None)"
proof (cases input)
  case None
  then show ?thesis
    by (simp add: requestPayload_def Let_def)
next
  case (Some m)
  with assms have "snd (convertFiles (map fst m) m) = None"
    by (intro convertFiles_no_panic) simp
  with Some show ?thesis
    by (auto simp: requestPayload_def Let_def split: prod.splits)
qed

lemma payload_input:
  assumes "requestPayload data input webhook stream = ((input1, payload), None)"
  shows "map_of payload ''input'' = Some (VMap input1)"
  unfolding requestPayload_payload[OF assms]
  by (simp add: Let_def map_of_update split: option.splits)

lemma payload_webhook:
  assumes "requestPayload data input webhook stream = ((input1, payload), None)"
  shows "map_of payload ''webhook'' =
           (case webhook of
              None \<Rightarrow> map_of (case data of None \<Rightarrow> [] | Some d \<Rightarrow> d) ''webhook''
            | Some w \<Rightarrow> Some (VString (URL w)))"
  unfolding requestPayload_payload[OF assms]
  by (simp add: Let_def map_of_update split: option.splits)

lemma payload_webhook_events_filter:
  assumes "requestPayload data input webhook stream = ((input1, payload), None)"
  shows "map_of payload ''webhook_events_filter'' =
           (case webhook of
              None \<Rightarrow> map_of (case data of None \<Rightarrow> [] | Some d \<Rightarrow> d) ''webhook_events_filter''
            | Some w \<Rightarrow>
                if Events w \<noteq> [] then Some (VStrings (Events w))
                else map_of (case data of None \<Rightarrow> [] | Some d \<Rightarrow> d) ''webhook_events_filter'')"
  unfolding requestPayload_payload[OF assms]
  by (simp add: Let_def map_of_update split: option.splits)

lemma payload_stream:
  assumes "requestPayload data input webhook stream = ((input1, payload), None)"
  shows "map_of payload ''stream'' =
           (if stream then Some (VBool True)
            else map_of (case data of None \<Rightarrow> [] | Some d \<Rightarrow> d) ''stream'')"
  unfolding requestPayload_payload[OF assms]
  by (simp add: Let_def map_of_update split: option.splits)

lemma payload_other:
  assumes "requestPayload data input webhook stream = ((input1, payload), None)"
    and "k \<notin> {''input'', ''webhook'', ''webhook_events_filter'', ''stream''}"
  shows "map_of payload k = map_of (case data of None \<Rightarrow> [] | Some d \<Rightarrow> d) k"
  unfolding requestPayload_payload[OF assms(1)] using assms(2)
  by (simp add: Let_def map_of_update split: option.splits)

lemma createPredictionRequest_payload:
  assumes "requestPayload data input webhook stream = ((input1, payload), None)"
  shows "createPredictionRequest marshal newRequest path data input webhook stream =
           (serializeRequest marshal newRequest path payload, input1,
            (case data of None \<Rightarrow> None | Some d \<Rightarrow> Some payload))"
  by (simp add: createPredictionRequest_def assms)

section \<open>The claims on the request builder\<close>

text \<open>
  Claim C6. For every entry of the input mapping whose value is a file reference, the
  request builder replaces the value, in the caller's mapping, by the string that the
  file's \<^verbatim>\<open>URLs\<close> holds at \<^verbatim>\<open>"get"\<close>; entries whose values are not file references
  are left as they are; and the mapping serialized under the key \<^verbatim>\<open>input\<close> is the
  mapping so rewritten. The input holds no \<^verbatim>\<open>nil\<close> pointer to a file: on one the
  builder panics before it serializes anything.
\<close>

theorem request_builder_converts_files:
  assumes "\<forall>k. map_of input k \<noteq> Some (VFile None)"
  shows "\<exists>m payload.
           requestPayload data (Some input) webhook stream = ((Some m, payload), None) \<and>
           createPredictionRequest marshal newRequest path data (Some input) webhook stream =
             (serializeRequest marshal newRequest path payload, Some m,
              (case data of None \<Rightarrow> None | Some d \<Rightarrow> Some payload)) \<and>
           map_of payload ''input'' = Some (VMap (Some m)) \<and>
           (\<forall>k f. map_of input k = Some (VFile (Some f)) \<longrightarrow>
                  map_of m k = Some (VString (index (URLs f) ''get''))) \<and>
           (\<forall>k. (\<forall>file. map_of input k \<noteq> Some (VFile file)) \<longrightarrow> map_of m k = map_of input k)"
proof -
  from assms have "\<forall>m k. Some input = Some m \<longrightarrow> map_of m k \<noteq> Some (VFile None)"
    by simp
  from requestPayload_no_panic[OF this] obtain input1 payload where
    rp: "requestPayload data (Some input) webhook stream = ((input1, payload), None)"
    by blast
  from requestPayload_input[OF rp] obtain m where
    m: "input1 = Some m" "convertFiles (map fst input) input = (m, None)"
    by auto
  have 1: "\<forall>k f. map_of input k = Some (VFile (Some f)) \<longrightarrow>
                  map_of m k = Some (VString (index (URLs f) ''get''))"
    by (simp add: convertFiles_all[OF m(2)])
  have 2: "\<forall>k. (\<forall>file. map_of input k \<noteq> Some (VFile file)) \<longrightarrow> map_of m k = map_of input k"
    by (auto simp: convertFiles_all[OF m(2)] split: option.splits goval.splits)
  from rp m(1) 1 2 payload_input[OF rp] createPredictionRequest_payload[OF rp, of marshal newRequest path]
  show ?thesis
    by blast
qed

text \<open>
  The theorem of claim C6 on an input with a file whose retrieval URL is
  \<^verbatim>\<open>https://x/y\<close> and a number.
\<close>

theorem request_builder_converts_files_witness:
  "(\<forall>k. map_of [(''image'', VFile (Some \<lparr>URLs = [(''get'', ''https://x/y'')]\<rparr>)), (''steps'', VNumber 20)] k
          \<noteq> Some (VFile None)) \<and>
   createPredictionRequest marshalFlat recordRequest ''/predictions'' (Some [])
       (Some [(''image'', VFile (Some \<lparr>URLs = [(''get'', ''https://x/y'')]\<rparr>)), (''steps'', VNumber 20)])
       None False =
     (Inr (''POST'', ''/predictions'', ''input=_;''),
      Some [(''image'', VString ''https://x/y''), (''steps'', VNumber 20)],
      Some [(''input'', VMap (Some [(''image'', VString ''https://x/y''), (''steps'', VNumber 20)]))])"
proof -
  let ?input = "[(''image'', VFile (Some \<lparr>URLs = [(''get'', ''https://x/y'')]\<rparr>)), (''steps'', VNumber 20)]"
  have h: "\<forall>k. map_of ?input k \<noteq> Some (VFile None)"
    by simp
  from request_builder_converts_files[OF h, of "Some []" None False marshalFlat recordRequest "''/predictions''"]
  obtain m payload where
    rp: "requestPayload (Some []) (Some ?input) None False = ((Some m, payload), None)" and
    cr: "createPredictionRequest marshalFlat recordRequest ''/predictions'' (Some []) (Some ?input) None False =
           (serializeRequest marshalFlat recordRequest ''/predictions'' payload, Some m, Some payload)"
    by auto
  have "requestPayload (Some []) (Some ?input) None False =
          ((Some [(''image'', VString ''https://x/y''), (''steps'', VNumber 20)],
            [(''input'', VMap (Some [(''image'', VString ''https://x/y''), (''steps'', VNumber 20)]))]), None)"
    by code_simp
  with rp have "m = [(''image'', VString ''https://x/y''), (''steps'', VNumber 20)] \<and>
      payload = [(''input'', VMap (Some [(''image'', VString ''https://x/y''), (''steps'', VNumber 20)]))]"
    by auto
  with cr h show ?thesis
    by (simp add: serializeRequest_def marshalFlat_def recordRequest_def)
qed


text \<open>
  Claim C8. For every request built with a webhook, the payload that is serialized holds
  the webhook's URL under \<^verbatim>\<open>webhook\<close>; the builder sets \<^verbatim>\<open>webhook_events_filter\<close>, to
  the webhook's events, if and only if the list of events is not empty, so that with a
  base payload that does not hold the key already the key is present exactly when the
  filter is not empty. With no webhook the builder sets neither key: both are as the base
  payload has them. The base payload is the map the caller passed, or the empty map when
  the caller passed \<^verbatim>\<open>nil\<close>. The input holds no \<^verbatim>\<open>nil\<close> pointer to a file, so that a
  request is built.
\<close>

theorem request_builder_webhook:
  assumes "\<forall>m k. input = Some m \<longrightarrow> map_of m k \<noteq> Some (VFile None)"
  shows "\<exists>input1 payload.
           requestPayload data input webhook stream = ((input1, payload), None) \<and>
           createPredictionRequest marshal newRequest path data input webhook stream =
             (serializeRequest marshal newRequest path payload, input1,
              (case data of None \<Rightarrow> None | Some d \<Rightarrow> Some payload)) \<and>
           (\<forall>w. webhook = Some w \<longrightarrow>
                map_of payload ''webhook'' = Some (VString (URL w)) \<and>
                (Events w \<noteq> [] \<longrightarrow>
                   map_of payload ''webhook_events_filter'' = Some (VStrings (Events w))) \<and>
                (Events w = [] \<longrightarrow>
                   map_of payload ''webhook_events_filter'' =
                     map_of (case data of None \<Rightarrow> [] | Some d \<Rightarrow> d) ''webhook_events_filter'') \<and>
                (map_of (case data of None \<Rightarrow> [] | Some d \<Rightarrow> d) ''webhook_events_filter'' = None \<longrightarrow>
                   (map_of payload ''webhook_events_filter'' \<noteq> None \<longleftrightarrow> Events w \<noteq> []))) \<and>
           (webhook = None \<longrightarrow>
              map_of payload ''webhook'' =
                map_of (case data of None \<Rightarrow> [] | Some d \<Rightarrow> d) ''webhook'' \<and>
              map_of payload ''webhook_events_filter'' =
                map_of (case data of None \<Rightarrow> [] | Some d \<Rightarrow> d) ''webhook_events_filter'')"
proof -
  from requestPayload_no_panic[OF assms] obtain input1 payload where
    rp: "requestPayload data input webhook stream = ((input1, payload), None)"
    by blast
  have w: "\<forall>w. webhook = Some w \<longrightarrow>
                map_of payload ''webhook'' = Some (VString (URL w)) \<and>
                (Events w \<noteq> [] \<longrightarrow>
                   map_of payload ''webhook_events_filter'' = Some (VStrings (Events w))) \<and>
                (Events w = [] \<longrightarrow>
                   map_of payload ''webhook_events_filter'' =
                     map_of (case data of None \<Rightarrow> [] | Some d \<Rightarrow> d) ''webhook_events_filter'') \<and>
                (map_of (case data of None \<Rightarrow> [] | Some d \<Rightarrow> d) ''webhook_events_filter'' = None \<longrightarrow>
                   (map_of payload ''webhook_events_filter'' \<noteq> None \<longleftrightarrow> Events w \<noteq> []))"
    by (simp add: payload_webhook[OF rp] payload_webhook_events_filter[OF rp])
  have n: "webhook = None \<longrightarrow>
              map_of payload ''webhook'' =
                map_of (case data of None \<Rightarrow> [] | Some d \<Rightarrow> d) ''webhook'' \<and>
              map_of payload ''webhook_events_filter'' =
                map_of (case data of None \<Rightarrow> [] | Some d \<Rightarrow> d) ''webhook_events_filter''"
    by (simp add: payload_webhook[OF rp] payload_webhook_events_filter[OF rp])
  from rp w n createPredictionRequest_payload[OF rp, of marshal newRequest path]
  show ?thesis
    by blast
qed

text \<open>
  The theorem of claim C8 on a webhook with the URL \<^verbatim>\<open>https://cb\<close> and an empty filter:
  the payload holds \<^verbatim>\<open>webhook\<close> and not \<^verbatim>\<open>webhook_events_filter\<close>.
\<close>

theorem request_builder_webhook_witness:
  "(\<forall>k. map_of [(''prompt'', VString ''hi'')] k \<noteq> Some (VFile None)) \<and>
   createPredictionRequest marshalFlat recordRequest ''/predictions'' (Some [])
       (Some [(''prompt'', VString ''hi'')]) (Some \<lparr>URL = ''https://cb'', Events = []\<rparr>) False =
     (Inr (''POST'', ''/predictions'', ''input=_;webhook=https://cb;''),
      Some [(''prompt'', VString ''hi'')],
      Some [(''input'', VMap (Some [(''prompt'', VString ''hi'')])), (''webhook'', VString ''https://cb'')]) \<and>
   map_of [(''input'', VMap (Some [(''prompt'', VString ''hi'')])), (''webhook'', VString ''https://cb'')]
       ''webhook'' = Some (VString ''https://cb'') \<and>
   map_of [(''input'', VMap (Some [(''prompt'', VString ''hi'')])), (''webhook'', VString ''https://cb'')]
       ''webhook_events_filter'' = None"
proof -
  let ?input = "Some [(''prompt'', VString ''hi'')]"
  let ?webhook = "Some \<lparr>URL = ''https://cb'', Events = []\<rparr>"
  have h0: "\<forall>k. map_of [(''prompt'', VString ''hi'')] k \<noteq> Some (VFile None)"
    by simp
  then have h: "\<forall>m k. ?input = Some m \<longrightarrow> map_of m k \<noteq> Some (VFile None)"
    by simp
  from request_builder_webhook[OF h, of "Some []" ?webhook False
      marshalFlat recordRequest "''/predictions''"]
  obtain input1 payload where
    rp: "requestPayload (Some []) ?input ?webhook False = ((input1, payload), None)" and
    cr: "createPredictionRequest marshalFlat recordRequest ''/predictions'' (Some []) ?input ?webhook False =
           (serializeRequest marshalFlat recordRequest ''/predictions'' payload, input1, Some payload)" and
    wh: "map_of payload ''webhook'' = Some (VString ''https://cb'')" and
    ef: "map_of payload ''webhook_events_filter'' = None"
    by auto
  have "requestPayload (Some []) ?input ?webhook False =
          ((?input, [(''input'', VMap ?input), (''webhook'', VString ''https://cb'')]), None)"
    by code_simp
  with rp have "input1 = ?input \<and> payload = [(''input'', VMap ?input), (''webhook'', VString ''https://cb'')]"
    by auto
  with cr wh ef h0 show ?thesis
    by (simp add: serializeRequest_def marshalFlat_def recordRequest_def)
qed

text \<open>
  Claim C10. Called with \<^verbatim>\<open>nil\<close> for the base payload, the request builder does not
  fail on that account: it serializes a map of its own, which holds nothing but the keys
  the builder sets, and the caller's variable stays \<^verbatim>\<open>nil\<close>. In every case the map that
  is serialized holds, under \<^verbatim>\<open>input\<close>, the input mapping after the conversion of its
  files. Called with a base payload that is not \<^verbatim>\<open>nil\<close>, the builder writes into the
  caller's map: after the call the caller's map is the map that was serialized, which is
  the base payload with the keys \<^verbatim>\<open>input\<close>, \<^verbatim>\<open>webhook\<close>, \<^verbatim>\<open>webhook_events_filter\<close> and
  \<^verbatim>\<open>stream\<close> set as the arguments ask and every other key untouched. The input holds no
  \<^verbatim>\<open>nil\<close> pointer to a file, so that a request is built.
\<close>

theorem request_builder_base_payload:
  assumes "\<forall>m k. input = Some m \<longrightarrow> map_of m k \<noteq> Some (VFile None)"
  shows "\<exists>input1 payload.
           requestPayload data input webhook stream = ((input1, payload), None) \<and>
           createPredictionRequest marshal newRequest path data input webhook stream =
             (serializeRequest marshal newRequest path payload, input1,
              (case data of None \<Rightarrow> None | Some d \<Rightarrow> Some payload)) \<and>
           map_of payload ''input'' = Some (VMap input1) \<and>
           (input = None \<longrightarrow> input1 = None) \<and>
           (\<forall>m. input = Some m \<longrightarrow> input1 = Some (fst (convertFiles (map fst m) m))) \<and>
           (data = None \<longrightarrow>
              (\<forall>k. k \<notin> {''input'', ''webhook'', ''webhook_events_filter'', ''stream''} \<longrightarrow>
                   map_of payload k = None)) \<and>
           (\<forall>d. data = Some d \<longrightarrow>
              (\<forall>k. k \<notin> {''input'', ''webhook'', ''webhook_events_filter'', ''stream''} \<longrightarrow>
                   map_of payload k = map_of d k)) \<and>
           (\<forall>w. webhook = Some w \<longrightarrow> map_of payload ''webhook'' = Some (VString (URL w))) \<and>
           (\<forall>w. webhook = Some w \<and> Events w \<noteq> [] \<longrightarrow>
              map_of payload ''webhook_events_filter'' = Some (VStrings (Events w))) \<and>
           (stream \<longrightarrow> map_of payload ''stream'' = Some (VBool True))"
proof -
  from requestPayload_no_panic[OF assms] obtain input1 payload where
    rp: "requestPayload data input webhook stream = ((input1, payload), None)"
    by blast
  have i1: "input = None \<longrightarrow> input1 = None"
    using requestPayload_input[OF rp] by auto
  have i2: "\<forall>m. input = Some m \<longrightarrow> input1 = Some (fst (convertFiles (map fst m) m))"
    using requestPayload_input[OF rp] by auto
  have o1: "data = None \<longrightarrow>
              (\<forall>k. k \<notin> {''input'', ''webhook'', ''webhook_events_filter'', ''stream''} \<longrightarrow>
                   map_of payload k = None)"
    using payload_other[OF rp] by auto
  have o2: "\<forall>d. data = Some d \<longrightarrow>
              (\<forall>k. k \<notin> {''input'', ''webhook'', ''webhook_events_filter'', ''stream''} \<longrightarrow>
                   map_of payload k = map_of d k)"
    using payload_other[OF rp] by auto
  have w1: "\<forall>w. webhook = Some w \<longrightarrow> map_of payload ''webhook'' = Some (VString (URL w))"
    by (simp add: payload_webhook[OF rp])
  have w2: "\<forall>w. webhook = Some w \<and> Events w \<noteq> [] \<longrightarrow>
              map_of payload ''webhook_events_filter'' = Some (VStrings (Events w))"
    by (simp add: payload_webhook_events_filter[OF rp])
  have w3: "stream \<longrightarrow> map_of payload ''stream'' = Some (VBool True)"
    by (simp add: payload_stream[OF rp])
  note cr = createPredictionRequest_payload[OF rp, of marshal newRequest path]
  note pi = payload_input[OF rp]
  show ?thesis
    by (intro exI[of _ input1] exI[of _ payload] conjI)
       (rule rp cr pi i1 i2 o1 o2 w1 w2 w3)+
qed

text \<open>
  The theorem of claim C10 on a \<^verbatim>\<open>nil\<close> base payload and on a base payload that holds
  a version, each with an input of one prompt and with streaming.
\<close>

theorem request_builder_base_payload_witness:
  "(\<forall>k. map_of [(''prompt'', VString ''hi'')] k \<noteq> Some (VFile None)) \<and>
   createPredictionRequest marshalFlat recordRequest ''/predictions'' None
       (Some [(''prompt'', VString ''hi'')]) None True =
     (Inr (''POST'', ''/predictions'', ''input=_;stream=true;''), Some [(''prompt'', VString ''hi'')], None) \<and>
   createPredictionRequest marshalFlat recordRequest ''/predictions''
       (Some [(''version'', VString ''abc123'')]) (Some [(''prompt'', VString ''hi'')]) None True =
     (Inr (''POST'', ''/predictions'', ''version=abc123;input=_;stream=true;''), Some [(''prompt'', VString ''hi'')],
      Some [(''version'', VString ''abc123''), (''input'', VMap (Some [(''prompt'', VString ''hi'')])),
            (''stream'', VBool True)])"
proof -
  let ?input = "Some [(''prompt'', VString ''hi'')]"
  let ?base = "Some [(''version'', VString ''abc123'')]"
  have h0: "\<forall>k. map_of [(''prompt'', VString ''hi'')] k \<noteq> Some (VFile None)"
    by simp
  then have h: "\<forall>m k. ?input = Some m \<longrightarrow> map_of m k \<noteq> Some (VFile None)"
    by simp
  from request_builder_base_payload[OF h, of None None True marshalFlat recordRequest "''/predictions''"]
  obtain input1 payload where
    rp: "requestPayload None ?input None True = ((input1, payload), None)" and
    cr: "createPredictionRequest marshalFlat recordRequest ''/predictions'' None ?input None True =
           (serializeRequest marshalFlat recordRequest ''/predictions'' payload, input1, None)"
    by auto
  have "requestPayload None ?input None True =
          ((?input, [(''input'', VMap ?input), (''stream'', VBool True)]), None)"
    by code_simp
  with rp have "input1 = ?input \<and> payload = [(''input'', VMap ?input), (''stream'', VBool True)]"
    by auto
  with cr have 1: "createPredictionRequest marshalFlat recordRequest ''/predictions'' None ?input None True =
     (Inr (''POST'', ''/predictions'', ''input=_;stream=true;''), ?input, None)"
    by (simp add: serializeRequest_def marshalFlat_def recordRequest_def)
  from request_builder_base_payload[OF h, of ?base None True marshalFlat recordRequest "''/predictions''"]
  obtain input2 payload2 where
    rp2: "requestPayload ?base ?input None True = ((input2, payload2), None)" and
    cr2: "createPredictionRequest marshalFlat recordRequest ''/predictions'' ?base ?input None True =
           (serializeRequest marshalFlat recordRequest ''/predictions'' payload2, input2, Some payload2)"
    by auto
  have "requestPayload ?base ?input None True =
          ((?input, [(''version'', VString ''abc123''), (''input'', VMap ?input), (''stream'', VBool True)]), None)"
    by code_simp
  with rp2 have "input2 = ?input \<and>
      payload2 = [(''version'', VString ''abc123''), (''input'', VMap ?input), (''stream'', VBool True)]"
    by auto
  with cr2 have 2: "createPredictionRequest marshalFlat recordRequest ''/predictions'' ?base ?input None True =
     (Inr (''POST'', ''/predictions'', ''version=abc123;input=_;stream=true;''), ?input,
      Some [(''version'', VString ''abc123''), (''input'', VMap ?input), (''stream'', VBool True)])"
    by (simp add: serializeRequest_def marshalFlat_def recordRequest_def)
  from h0 1 2 show ?thesis
    by (intro conjI)
qed

section \<open>The claims on the operations\<close>

lemma createFromTarget_payload:
  assumes "requestPayload (Some data) input webhook stream = ((input1, payload), None)"
  shows "createFromTarget marshal newRequest do path data input webhook stream =
           (case serializeRequest marshal newRequest path payload of
              Inl err \<Rightarrow> (Inl err, input1)
            | Inr req \<Rightarrow>
                (case do req emptyPrediction of
                   (prediction, Some err) \<Rightarrow>
                     (Inl (Wrapped ''failed to create prediction'' err), input1)
                 | (prediction, None) \<Rightarrow> (Inr prediction, input1)))"
  by (simp add: createFromTarget_def createPredictionRequest_payload[OF assms] split: sum.splits)

lemma payload_version:
  assumes "requestPayload (Some data) input webhook stream = ((input1, payload), None)"
  shows "map_of payload ''version'' = map_of data ''version''"
  using payload_other[OF assms, of "''version''"] by simp

text \<open>
  Claim C7. When the identifier parses into an owner and a name with no version,
  \<open>CreatePrediction\<close> builds its request for the path
  \<^verbatim>\<open>/models/{owner}/{name}/predictions\<close> and the payload that is serialized has no key
  \<^verbatim>\<open>version\<close>. When the identifier does not parse, the request is built for the path
  \<^verbatim>\<open>/predictions\<close> and the payload holds the whole identifier under \<^verbatim>\<open>version\<close>; the
  error of the parser is dropped: the result is that of building and sending this
  request. In both cases the result is stated for every run in which the builder reaches
  the serialization, with the payload it serializes.
\<close>

theorem CreatePrediction_path_and_version:
  "(parse identifier = Inr ident \<and> Version ident = None \<longrightarrow>
      predictionTarget parse identifier =
        (''/models/'' @ Owner ident @ ''/'' @ Name ident @ ''/predictions'', []) \<and>
      (\<forall>input1 payload.
         requestPayload (Some []) input webhook stream = ((input1, payload), None) \<longrightarrow>
           map_of payload ''version'' = None \<and>
           CreatePrediction parse marshal newRequest do identifier input webhook stream =
             (case serializeRequest marshal newRequest
                     (''/models/'' @ Owner ident @ ''/'' @ Name ident @ ''/predictions'') payload of
                Inl err \<Rightarrow> (Inl err, input1)
              | Inr req \<Rightarrow>
                  (case do req emptyPrediction of
                     (prediction, Some err) \<Rightarrow>
                       (Inl (Wrapped ''failed to create prediction'' err), input1)
                   | (prediction, None) \<Rightarrow> (Inr prediction, input1))))) \<and>
   (parse identifier = Inl parseError \<longrightarrow>
      predictionTarget parse identifier =
        (''/predictions'', [(''version'', VString identifier)]) \<and>
      (\<forall>input1 payload.
         requestPayload (Some [(''version'', VString identifier)]) input webhook stream =
           ((input1, payload), None) \<longrightarrow>
           map_of payload ''version'' = Some (VString identifier) \<and>
           CreatePrediction parse marshal newRequest do identifier input webhook stream =
             (case serializeRequest marshal newRequest ''/predictions'' payload of
                Inl err \<Rightarrow> (Inl err, input1)
              | Inr req \<Rightarrow>
                  (case do req emptyPrediction of
                     (prediction, Some err) \<Rightarrow>
                       (Inl (Wrapped ''failed to create prediction'' err), input1)
                   | (prediction, None) \<Rightarrow> (Inr prediction, input1)))))"
proof (intro conjI impI allI)
  assume a: "parse identifier = Inr ident \<and> Version ident = None"
  then show t: "predictionTarget parse identifier =
        (''/models/'' @ Owner ident @ ''/'' @ Name ident @ ''/predictions'', [])"
    by (simp add: predictionTarget_def)
  fix input1 payload
  assume rp: "requestPayload (Some []) input webhook stream = ((input1, payload), None)"
  show "map_of payload ''version'' = None"
    using payload_version[OF rp] by simp
  show "CreatePrediction parse marshal newRequest do identifier input webhook stream =
             (case serializeRequest marshal newRequest
                     (''/models/'' @ Owner ident @ ''/'' @ Name ident @ ''/predictions'') payload of
                Inl err \<Rightarrow> (Inl err, input1)
              | Inr req \<Rightarrow>
                  (case do req emptyPrediction of
                     (prediction, Some err) \<Rightarrow>
                       (Inl (Wrapped ''failed to create prediction'' err), input1)
                   | (prediction, None) \<Rightarrow> (Inr prediction, input1)))"
    unfolding CreatePrediction_def t by (simp add: createFromTarget_payload[OF rp])
next
  assume a: "parse identifier = Inl parseError"
  then show t: "predictionTarget parse identifier =
        (''/predictions'', [(''version'', VString identifier)])"
    by (simp add: predictionTarget_def)
  fix input1 payload
  assume rp: "requestPayload (Some [(''version'', VString identifier)]) input webhook stream =
           ((input1, payload), None)"
  show "map_of payload ''version'' = Some (VString identifier)"
    using payload_version[OF rp] by simp
  show "CreatePrediction parse marshal newRequest do identifier input webhook stream =
             (case serializeRequest marshal newRequest ''/predictions'' payload of
                Inl err \<Rightarrow> (Inl err, input1)
              | Inr req \<Rightarrow>
                  (case do req emptyPrediction of
                     (prediction, Some err) \<Rightarrow>
                       (Inl (Wrapped ''failed to create prediction'' err), input1)
                   | (prediction, None) \<Rightarrow> (Inr prediction, input1)))"
    unfolding CreatePrediction_def t by (simp add: createFromTarget_payload[OF rp])
qed


text \<open>
  The theorem of claim C7 on the identifiers \<^verbatim>\<open>owner/name\<close> and \<^verbatim>\<open>abc123\<close>, with no
  input, no webhook and no streaming.
\<close>

theorem CreatePrediction_path_and_version_witness:
  "ParseIdentifier ''owner/name'' = Inr \<lparr>Owner = ''owner'', Name = ''name'', Version = None\<rparr> \<and>
   requestPayload (Some []) None None False = ((None, [(''input'', VMap None)]), None) \<and>
   map_of [(''input'', VMap None)] ''version'' = None \<and>
   serializeRequest marshalFlat recordRequest ''/models/owner/name/predictions'' [(''input'', VMap None)] =
     Inr (''POST'', ''/models/owner/name/predictions'', ''input=_;'') \<and>
   CreatePrediction ParseIdentifier marshalFlat recordRequest doRespond ''owner/name'' None None False =
     (Inr (emptyPrediction\<lparr>ID := ''p1''\<rparr>), None) \<and>
   ParseIdentifier ''abc123'' = Inl (Err ''invalid identifier'') \<and>
   requestPayload (Some [(''version'', VString ''abc123'')]) None None False =
     ((None, [(''version'', VString ''abc123''), (''input'', VMap None)]), None) \<and>
   map_of [(''version'', VString ''abc123''), (''input'', VMap None)] ''version'' = Some (VString ''abc123'') \<and>
   serializeRequest marshalFlat recordRequest ''/predictions''
       [(''version'', VString ''abc123''), (''input'', VMap None)] =
     Inr (''POST'', ''/predictions'', ''version=abc123;input=_;'') \<and>
   CreatePrediction ParseIdentifier marshalFlat recordRequest doRespond ''abc123'' None None False =
     (Inr (emptyPrediction\<lparr>ID := ''p1''\<rparr>), None)"
proof -
  let ?ident = "\<lparr>Owner = ''owner'', Name = ''name'', Version = None\<rparr>"
  have p1: "ParseIdentifier ''owner/name'' = Inr ?ident"
    by code_simp
  have r1: "requestPayload (Some []) None None False = ((None, [(''input'', VMap None)]), None)"
    by code_simp
  have s1: "serializeRequest marshalFlat recordRequest ''/models/owner/name/predictions''
              [(''input'', VMap None)] =
            Inr (''POST'', ''/models/owner/name/predictions'', ''input=_;'')"
    by (simp add: serializeRequest_def marshalFlat_def recordRequest_def)
  have p2: "ParseIdentifier ''abc123'' = Inl (Err ''invalid identifier'')"
    by code_simp
  have r2: "requestPayload (Some [(''version'', VString ''abc123'')]) None None False =
              ((None, [(''version'', VString ''abc123''), (''input'', VMap None)]), None)"
    by code_simp
  have s2: "serializeRequest marshalFlat recordRequest ''/predictions''
              [(''version'', VString ''abc123''), (''input'', VMap None)] =
            Inr (''POST'', ''/predictions'', ''version=abc123;input=_;'')"
    by (simp add: serializeRequest_def marshalFlat_def recordRequest_def)
  note inst1 = CreatePrediction_path_and_version[of ParseIdentifier "''owner/name''" ?ident None None False
      marshalFlat recordRequest doRespond "Err ''invalid identifier''"]
  note inst2 = CreatePrediction_path_and_version[of ParseIdentifier "''abc123''" ?ident None None False
      marshalFlat recordRequest doRespond "Err ''invalid identifier''"]
  from inst1 p1 r1 have c1: "map_of [(''input'', VMap None)] ''version'' = None \<and>
      CreatePrediction ParseIdentifier marshalFlat recordRequest doRespond ''owner/name'' None None False =
        (case serializeRequest marshalFlat recordRequest ''/models/owner/name/predictions''
                [(''input'', VMap None)] of
           Inl err \<Rightarrow> (Inl err, None)
         | Inr req \<Rightarrow>
             (case doRespond req emptyPrediction of
                (prediction, Some err) \<Rightarrow> (Inl (Wrapped ''failed to create prediction'' err), None)
              | (prediction, None) \<Rightarrow> (Inr prediction, None)))"
    by simp
  from inst2 p2 r2 have c2:
     "map_of [(''version'', VString ''abc123''), (''input'', VMap None)] ''version'' = Some (VString ''abc123'') \<and>
      CreatePrediction ParseIdentifier marshalFlat recordRequest doRespond ''abc123'' None None False =
        (case serializeRequest marshalFlat recordRequest ''/predictions''
                [(''version'', VString ''abc123''), (''input'', VMap None)] of
           Inl err \<Rightarrow> (Inl err, None)
         | Inr req \<Rightarrow>
             (case doRespond req emptyPrediction of
                (prediction, Some err) \<Rightarrow> (Inl (Wrapped ''failed to create prediction'' err), None)
              | (prediction, None) \<Rightarrow> (Inr prediction, None)))"
    by simp
  from c1 s1 have d1: "CreatePrediction ParseIdentifier marshalFlat recordRequest doRespond ''owner/name'' None None False =
     (Inr (emptyPrediction\<lparr>ID := ''p1''\<rparr>), None)"
    by (simp add: doRespond_def)
  from c2 s2 have d2: "CreatePrediction ParseIdentifier marshalFlat recordRequest doRespond ''abc123'' None None False =
     (Inr (emptyPrediction\<lparr>ID := ''p1''\<rparr>), None)"
    by (simp add: doRespond_def)
  from p1 r1 c1 s1 d1 p2 r2 c2 s2 d2 show ?thesis
    by (intro conjI) simp_all
qed

text \<open>
  Claim C1, as amended. For every identifier that parses into an owner and a name with an
  explicit version, \<open>CreatePrediction\<close> builds its request for the generic path
  \<^verbatim>\<open>/predictions\<close>, and the payload that is serialized holds under \<^verbatim>\<open>version\<close> the
  whole identifier as it was given, owner and name included, not the version that the
  parser extracted.
\<close>

theorem CreatePrediction_with_version:
  assumes "parse identifier = Inr ident" and "Version ident = Some v"
  shows "predictionTarget parse identifier =
           (''/predictions'', [(''version'', VString identifier)]) \<and>
         (\<forall>input1 payload.
            requestPayload (Some [(''version'', VString identifier)]) input webhook stream =
              ((input1, payload), None) \<longrightarrow>
              map_of payload ''version'' = Some (VString identifier) \<and>
              CreatePrediction parse marshal newRequest do identifier input webhook stream =
                (case serializeRequest marshal newRequest ''/predictions'' payload of
                   Inl err \<Rightarrow> (Inl err, input1)
                 | Inr req \<Rightarrow>
                     (case do req emptyPrediction of
                        (prediction, Some err) \<Rightarrow>
                          (Inl (Wrapped ''failed to create prediction'' err), input1)
                      | (prediction, None) \<Rightarrow> (Inr prediction, input1))))"
proof (intro conjI impI allI)
  from assms show t: "predictionTarget parse identifier =
           (''/predictions'', [(''version'', VString identifier)])"
    by (simp add: predictionTarget_def)
  fix input1 payload
  assume rp: "requestPayload (Some [(''version'', VString identifier)]) input webhook stream =
              ((input1, payload), None)"
  show "map_of payload ''version'' = Some (VString identifier)"
    using payload_version[OF rp] by simp
  show "CreatePrediction parse marshal newRequest do identifier input webhook stream =
                (case serializeRequest marshal newRequest ''/predictions'' payload of
                   Inl err \<Rightarrow> (Inl err, input1)
                 | Inr req \<Rightarrow>
                     (case do req emptyPrediction of
                        (prediction, Some err) \<Rightarrow>
                          (Inl (Wrapped ''failed to create prediction'' err), input1)
                      | (prediction, None) \<Rightarrow> (Inr prediction, input1)))"
    unfolding CreatePrediction_def t by (simp add: createFromTarget_payload[OF rp])
qed

text \<open>The theorem of claim C1 on the identifier \<^verbatim>\<open>owner/name:v1\<close>.\<close>

theorem CreatePrediction_with_version_witness:
  "ParseIdentifier ''owner/name:v1'' = Inr \<lparr>Owner = ''owner'', Name = ''name'', Version = Some ''v1''\<rparr> \<and>
   Version \<lparr>Owner = ''owner'', Name = ''name'', Version = Some ''v1''\<rparr> = Some ''v1'' \<and>
   predictionTarget ParseIdentifier ''owner/name:v1'' =
     (''/predictions'', [(''version'', VString ''owner/name:v1'')]) \<and>
   CreatePrediction ParseIdentifier marshalFlat recordRequest doRespond ''owner/name:v1'' None None False =
     (Inr (emptyPrediction\<lparr>ID := ''p1''\<rparr>), None)"
proof -
  let ?ident = "\<lparr>Owner = ''owner'', Name = ''name'', Version = Some ''v1''\<rparr>"
  have p: "ParseIdentifier ''owner/name:v1'' = Inr ?ident"
    by code_simp
  have v: "Version ?ident = Some ''v1''"
    by simp
  have r: "requestPayload (Some [(''version'', VString ''owner/name:v1'')]) None None False =
             ((None, [(''version'', VString ''owner/name:v1''), (''input'', VMap None)]), None)"
    by code_simp
  have s: "serializeRequest marshalFlat recordRequest ''/predictions''
             [(''version'', VString ''owner/name:v1''), (''input'', VMap None)] =
           Inr (''POST'', ''/predictions'', ''version=owner/name:v1;input=_;'')"
    by (simp add: serializeRequest_def marshalFlat_def recordRequest_def)
  note inst = CreatePrediction_with_version[of ParseIdentifier "''owner/name:v1''" ?ident "''v1''"
      None None False marshalFlat recordRequest doRespond, OF p v]
  from inst r have "CreatePrediction ParseIdentifier marshalFlat recordRequest doRespond ''owner/name:v1'' None None False =
        (case serializeRequest marshalFlat recordRequest ''/predictions''
                [(''version'', VString ''owner/name:v1''), (''input'', VMap None)] of
           Inl err \<Rightarrow> (Inl err, None)
         | Inr req \<Rightarrow>
             (case doRespond req emptyPrediction of
                (prediction, Some err) \<Rightarrow> (Inl (Wrapped ''failed to create prediction'' err), None)
              | (prediction, None) \<Rightarrow> (Inr prediction, None)))"
    by simp
  with s have "CreatePrediction ParseIdentifier marshalFlat recordRequest doRespond ''owner/name:v1'' None None False =
     (Inr (emptyPrediction\<lparr>ID := ''p1''\<rparr>), None)"
    by (simp add: doRespond_def)
  with p v inst show ?thesis
    by simp
qed

text \<open>
  Claim C1 as the spec states it puts the extracted version in the body. For
  \<^verbatim>\<open>owner/name:v1\<close> the parser extracts \<^verbatim>\<open>v1\<close>, and the payload holds
  \<^verbatim>\<open>owner/name:v1\<close> under \<^verbatim>\<open>version\<close>.
\<close>

theorem CreatePrediction_with_version_counterexample:
  "ParseIdentifier ''owner/name:v1'' = Inr \<lparr>Owner = ''owner'', Name = ''name'', Version = Some ''v1''\<rparr> \<and>
   predictionTarget ParseIdentifier ''owner/name:v1'' =
     (''/predictions'', [(''version'', VString ''owner/name:v1'')]) \<and>
   requestPayload (Some [(''version'', VString ''owner/name:v1'')]) None None False =
     ((None, [(''version'', VString ''owner/name:v1''), (''input'', VMap None)]), None) \<and>
   map_of [(''version'', VString ''owner/name:v1''), (''input'', VMap None)] ''version''
     \<noteq> Some (VString ''v1'') \<and>
   serializeRequest marshalFlat recordRequest ''/predictions''
       [(''version'', VString ''owner/name:v1''), (''input'', VMap None)] =
     Inr (''POST'', ''/predictions'', ''version=owner/name:v1;input=_;'')"
proof (intro conjI)
  show "ParseIdentifier ''owner/name:v1'' = Inr \<lparr>Owner = ''owner'', Name = ''name'', Version = Some ''v1''\<rparr>"
    by code_simp
  show "predictionTarget ParseIdentifier ''owner/name:v1'' =
     (''/predictions'', [(''version'', VString ''owner/name:v1'')])"
    by code_simp
  show "requestPayload (Some [(''version'', VString ''owner/name:v1'')]) None None False =
     ((None, [(''version'', VString ''owner/name:v1''), (''input'', VMap None)]), None)"
    by code_simp
  show "map_of [(''version'', VString ''owner/name:v1''), (''input'', VMap None)] ''version''
     \<noteq> Some (VString ''v1'')"
    by simp
  show "serializeRequest marshalFlat recordRequest ''/predictions''
       [(''version'', VString ''owner/name:v1''), (''input'', VMap None)] =
     Inr (''POST'', ''/predictions'', ''version=owner/name:v1;input=_;'')"
    by (simp add: serializeRequest_def marshalFlat_def recordRequest_def)
qed


text \<open>
  Claim C9. In each of the four operations, when the transport fails the operation returns
  no entity and one error, which wraps the error of the transport under the message of
  the operation (\<^verbatim>\<open>failed to create prediction\<close>, \<^verbatim>\<open>failed to list predictions\<close>,
  \<^verbatim>\<open>failed to get prediction\<close>, \<^verbatim>\<open>failed to cancel prediction\<close>); when the transport
  succeeds the operation returns the entity as the transport decoded it, and no error.
  For \<open>CreatePrediction\<close> the transport is called once the request is built. The text
  of a wrapping error is the message, a colon and the text of the error it wraps, and
  unwrapping it gives that error back.
\<close>

theorem operations_wrap_transport_errors:
  "(predictionTarget parse identifier = (path, data) \<and>
    createPredictionRequest marshal newRequest path (Some data) input webhook stream =
      (Inr req, input1, data1) \<longrightarrow>
      (\<forall>p err. do req emptyPrediction = (p, Some err) \<longrightarrow>
         CreatePrediction parse marshal newRequest do identifier input webhook stream =
           (Inl (Wrapped ''failed to create prediction'' err), input1)) \<and>
      (\<forall>p. do req emptyPrediction = (p, None) \<longrightarrow>
         CreatePrediction parse marshal newRequest do identifier input webhook stream =
           (Inr p, input1))) \<and>
   (\<forall>r err. fetchList ''GET'' ''/predictions'' None emptyPage = (r, Some err) \<longrightarrow>
      ListPredictions fetchList = Inl (Wrapped ''failed to list predictions'' err)) \<and>
   (\<forall>r. fetchList ''GET'' ''/predictions'' None emptyPage = (r, None) \<longrightarrow>
      ListPredictions fetchList = Inr r) \<and>
   (\<forall>p err. fetch ''GET'' (''/predictions/'' @ ident) None emptyPrediction = (p, Some err) \<longrightarrow>
      GetPrediction fetch ident = Inl (Wrapped ''failed to get prediction'' err)) \<and>
   (\<forall>p. fetch ''GET'' (''/predictions/'' @ ident) None emptyPrediction = (p, None) \<longrightarrow>
      GetPrediction fetch ident = Inr p) \<and>
   (\<forall>p err. fetch ''POST'' (''/predictions/'' @ ident @ ''/cancel'') None emptyPrediction = (p, Some err) \<longrightarrow>
      CancelPrediction fetch ident = Inl (Wrapped ''failed to cancel prediction'' err)) \<and>
   (\<forall>p. fetch ''POST'' (''/predictions/'' @ ident @ ''/cancel'') None emptyPrediction = (p, None) \<longrightarrow>
      CancelPrediction fetch ident = Inr p) \<and>
   (\<forall>msg err. Unwrap (Wrapped msg err) = Some err \<and>
      errorText (Wrapped msg err) = msg @ '': '' @ errorText err)"
proof (intro conjI)
  show "predictionTarget parse identifier = (path, data) \<and>
    createPredictionRequest marshal newRequest path (Some data) input webhook stream =
      (Inr req, input1, data1) \<longrightarrow>
      (\<forall>p err. do req emptyPrediction = (p, Some err) \<longrightarrow>
         CreatePrediction parse marshal newRequest do identifier input webhook stream =
           (Inl (Wrapped ''failed to create prediction'' err), input1)) \<and>
      (\<forall>p. do req emptyPrediction = (p, None) \<longrightarrow>
         CreatePrediction parse marshal newRequest do identifier input webhook stream =
           (Inr p, input1))"
    by (simp add: CreatePrediction_def createFromTarget_def)
  show "\<forall>r err. fetchList ''GET'' ''/predictions'' None emptyPage = (r, Some err) \<longrightarrow>
      ListPredictions fetchList = Inl (Wrapped ''failed to list predictions'' err)"
    by (simp add: ListPredictions_def)
  show "\<forall>r. fetchList ''GET'' ''/predictions'' None emptyPage = (r, None) \<longrightarrow>
      ListPredictions fetchList = Inr r"
    by (simp add: ListPredictions_def)
  show "\<forall>p err. fetch ''GET'' (''/predictions/'' @ ident) None emptyPrediction = (p, Some err) \<longrightarrow>
      GetPrediction fetch ident = Inl (Wrapped ''failed to get prediction'' err)"
    by (simp add: GetPrediction_def)
  show "\<forall>p. fetch ''GET'' (''/predictions/'' @ ident) None emptyPrediction = (p, None) \<longrightarrow>
      GetPrediction fetch ident = Inr p"
    by (simp add: GetPrediction_def)
  show "\<forall>p err. fetch ''POST'' (''/predictions/'' @ ident @ ''/cancel'') None emptyPrediction = (p, Some err) \<longrightarrow>
      CancelPrediction fetch ident = Inl (Wrapped ''failed to cancel prediction'' err)"
    by (simp add: CancelPrediction_def)
  show "\<forall>p. fetch ''POST'' (''/predictions/'' @ ident @ ''/cancel'') None emptyPrediction = (p, None) \<longrightarrow>
      CancelPrediction fetch ident = Inr p"
    by (simp add: CancelPrediction_def)
  show "\<forall>msg err. Unwrap (Wrapped msg err) = Some err \<and>
      errorText (Wrapped msg err) = msg @ '': '' @ errorText err"
    by simp
qed

text \<open>
  The theorem of claim C9 with a transport that refuses the connection and with one that
  answers, for the identifier \<^verbatim>\<open>abc123\<close> and the prediction \<^verbatim>\<open>p1\<close>.
\<close>

theorem operations_wrap_transport_errors_witness:
  "predictionTarget ParseIdentifier ''abc123'' = (''/predictions'', [(''version'', VString ''abc123'')]) \<and>
   createPredictionRequest marshalFlat recordRequest ''/predictions''
       (Some [(''version'', VString ''abc123'')]) None None False =
     (Inr (''POST'', ''/predictions'', ''version=abc123;input=_;''), None,
      Some [(''version'', VString ''abc123''), (''input'', VMap None)]) \<and>
   CreatePrediction ParseIdentifier marshalFlat recordRequest doRefuse ''abc123'' None None False =
     (Inl (Wrapped ''failed to create prediction'' (Err ''connection refused'')), None) \<and>
   CreatePrediction ParseIdentifier marshalFlat recordRequest doRespond ''abc123'' None None False =
     (Inr (emptyPrediction\<lparr>ID := ''p1''\<rparr>), None) \<and>
   ListPredictions fetchRefuse = Inl (Wrapped ''failed to list predictions'' (Err ''connection refused'')) \<and>
   ListPredictions fetchPage = Inr (emptyPage\<lparr>Results := [emptyPrediction\<lparr>ID := ''p1''\<rparr>]\<rparr>) \<and>
   GetPrediction fetchRefuse ''p1'' = Inl (Wrapped ''failed to get prediction'' (Err ''connection refused'')) \<and>
   GetPrediction fetchRespond ''p1'' = Inr (emptyPrediction\<lparr>ID := ''p1''\<rparr>) \<and>
   CancelPrediction fetchRefuse ''p1'' = Inl (Wrapped ''failed to cancel prediction'' (Err ''connection refused'')) \<and>
   CancelPrediction fetchRespond ''p1'' = Inr (emptyPrediction\<lparr>ID := ''p1''\<rparr>) \<and>
   errorText (Wrapped ''failed to get prediction'' (Err ''connection refused'')) =
     ''failed to get prediction: connection refused''"
proof -
  let ?req = "(''POST'', ''/predictions'', ''version=abc123;input=_;'')"
  let ?data = "[(''version'', VString ''abc123'')]"
  let ?data1 = "Some [(''version'', VString ''abc123''), (''input'', VMap None)]"
  have t: "predictionTarget ParseIdentifier ''abc123'' = (''/predictions'', ?data)"
    by code_simp
  have c: "createPredictionRequest marshalFlat recordRequest ''/predictions'' (Some ?data) None None False =
             (Inr ?req, None, ?data1)"
    by code_simp
  note refuse = operations_wrap_transport_errors[of ParseIdentifier "''abc123''" "''/predictions''" ?data
      marshalFlat recordRequest None None False ?req None ?data1 doRefuse fetchRefuse fetchRefuse "''p1''"]
  note respond = operations_wrap_transport_errors[of ParseIdentifier "''abc123''" "''/predictions''" ?data
      marshalFlat recordRequest None None False ?req None ?data1 doRespond fetchPage fetchRespond "''p1''"]
  from refuse t c have 1:
    "CreatePrediction ParseIdentifier marshalFlat recordRequest doRefuse ''abc123'' None None False =
       (Inl (Wrapped ''failed to create prediction'' (Err ''connection refused'')), None)"
    "ListPredictions fetchRefuse = Inl (Wrapped ''failed to list predictions'' (Err ''connection refused''))"
    "GetPrediction fetchRefuse ''p1'' = Inl (Wrapped ''failed to get prediction'' (Err ''connection refused''))"
    "CancelPrediction fetchRefuse ''p1'' = Inl (Wrapped ''failed to cancel prediction'' (Err ''connection refused''))"
    by (simp_all add: doRefuse_def fetchRefuse_def)
  from respond t c have 2:
    "CreatePrediction ParseIdentifier marshalFlat recordRequest doRespond ''abc123'' None None False =
       (Inr (emptyPrediction\<lparr>ID := ''p1''\<rparr>), None)"
    "ListPredictions fetchPage = Inr (emptyPage\<lparr>Results := [emptyPrediction\<lparr>ID := ''p1''\<rparr>]\<rparr>)"
    "GetPrediction fetchRespond ''p1'' = Inr (emptyPrediction\<lparr>ID := ''p1''\<rparr>)"
    "CancelPrediction fetchRespond ''p1'' = Inr (emptyPrediction\<lparr>ID := ''p1''\<rparr>)"
    by (simp_all add: doRespond_def fetchRespond_def fetchPage_def)
  from t c 1 2 show ?thesis
    by simp
qed

end
